theory Spec2Isabelle
  imports Main "HOL-Library.AList" "HOL-Library.Sublist"
begin

section \<open>The restic wrapper: data model\<close>

text \<open>
  The program is \<^verbatim>\<open>cmd/main.go\<close>: one sequential \<^verbatim>\<open>main\<close> that takes a file lock,
  checks two preconditions, fetches five secrets into the process environment, runs the
  backup engine once or twice and pushes two metrics. Everything it does is an
  interaction with the outside world, so the model is a function from the configuration
  and the answers of the outside world to the list of interactions performed, in order,
  and the way the process ended.
\<close>

subsection \<open>Configuration (\<^verbatim>\<open>type Config struct\<close>)\<close>

record ResticConfig =
  Path :: string
  FilesFrom :: string
  ExcludeFile :: string
  S3Storage :: string

record Config =
  BackupDir :: string
  LockFile :: string
  LogFile :: string
  Restic :: ResticConfig
  HostName :: string
  SecurityService :: string
  RequireAcPower :: bool
  CleanupOldBackups :: bool

subsection \<open>Log events, metrics, the trace\<close>

text \<open>The logrus levels the program uses.\<close>

datatype level = InfoLevel | WarnLevel | ErrorLevel | FatalLevel

text \<open>
  The value of a log field: a string, a Go \<^verbatim>\<open>error\<close> (by its message) or a
  \<^verbatim>\<open>time.Duration\<close> (in nanoseconds).
\<close>

datatype fieldval = FStr string | FErr string | FDur nat

type_synonym fields = "(string \<times> fieldval) list"

text \<open>
  The process environment: the list behind \<^verbatim>\<open>os.Environ\<close>, as pairs of name and value,
  each name once (the Go runtime keeps the first entry of a name when it reads the
  environment of the process).
\<close>

type_synonym env = "(string \<times> string) list"

text \<open>
  One \<^verbatim>\<open>types.MetricDatum\<close> of \<^verbatim>\<open>sendAwsMetrics\<close>. The value is either the elapsed
  duration (kept in nanoseconds; the source converts it to seconds as a float) or the
  constant \<^verbatim>\<open>1\<close>. The timestamp is left out.
\<close>

datatype metricval = DurationSeconds nat | Float64 int

record MetricDatum =
  MetricName :: string
  DimensionName :: string
  DimensionValue :: string
  Unit :: string
  Value :: metricval

text \<open>
  The interactions of the process with its surroundings, one constructor for each call
  site of the source:
  \<^item> \<open>TryLock p\<close>, \<open>Unlock p\<close>: \<^verbatim>\<open>fileLock.TryLock()\<close> and \<^verbatim>\<open>fileLock.Unlock()\<close> on the lock
    file \<open>p\<close>;
  \<^item> \<open>LookPath f\<close>: \<^verbatim>\<open>exec.LookPath(f)\<close>;
  \<^item> \<open>RunPmset\<close>: the \<^verbatim>\<open>pmset\<close> subprocess of \<^verbatim>\<open>isOnPower\<close>;
  \<^item> \<open>RunSecurity service account\<close>: the \<^verbatim>\<open>security\<close> subprocess of \<^verbatim>\<open>getSecurityData\<close>;
  \<^item> \<open>RunRestic path args environment\<close>: the \<^verbatim>\<open>cmd.Run()\<close> of \<^verbatim>\<open>runResticCommand\<close>, with
    the environment handed to the child (\<^verbatim>\<open>cmd.Env = os.Environ()\<close>);
  \<^item> \<open>Log level message fields\<close>: one logrus entry;
  \<^item> \<open>LoadDefaultConfig\<close>, \<open>PutMetricData namespace data\<close>: the two AWS SDK calls of
    \<^verbatim>\<open>sendAwsMetrics\<close>.
\<close>

datatype event =
    TryLock string
  | Unlock string
  | LookPath string
  | RunPmset
  | RunSecurity string string
  | RunRestic string "string list" env
  | Log level string fields
  | LoadDefaultConfig
  | PutMetricData string "MetricDatum list"

subsection \<open>The outside world\<close>

text \<open>What \<^verbatim>\<open>cmd.Run()\<close> leaves behind: the two buffers and the error (\<open>None\<close> is \<^verbatim>\<open>nil\<close>).\<close>

record CommandResult =
  stdout :: string
  stderr :: string
  run_err :: "string option"

text \<open>
  The answers of the outside world, fixed for one run. An error is the message of the Go
  \<^verbatim>\<open>error\<close>, \<open>None\<close> for \<^verbatim>\<open>nil\<close>. A subprocess that is killed by its context's deadline
  answers with an error like one that exits non-zero, so the deadlines themselves are not
  modelled.
  \<^item> \<open>filepath_Join\<close>: the library function \<^verbatim>\<open>filepath.Join\<close> on two elements, left
    abstract (no claim depends on the shape of a path);
  \<^item> \<open>flock_TryLock\<close>: the pair \<^verbatim>\<open>(locked, err)\<close> of \<^verbatim>\<open>fileLock.TryLock()\<close>;
  \<^item> \<open>exec_LookPath\<close>: the error of \<^verbatim>\<open>exec.LookPath\<close> for a file name;
  \<^item> \<open>pmset_Output\<close>: \<^verbatim>\<open>(output, err)\<close> of the \<^verbatim>\<open>pmset\<close> command;
  \<^item> \<open>security_CombinedOutput\<close>: \<^verbatim>\<open>(out, err)\<close> of the \<^verbatim>\<open>security\<close> command for a service and
    an account;
  \<^item> \<open>restic_Run\<close>: what the engine does for a path, an argument list and an environment;
  \<^item> \<open>config_LoadDefaultConfig\<close>, \<open>svc_PutMetricData\<close>: the errors of the two AWS calls;
  \<^item> \<open>os_Environ\<close>: the environment the process starts with;
  \<^item> \<open>time_Since\<close>: the value of \<^verbatim>\<open>time.Since(startTime)\<close>, in nanoseconds.
\<close>

record world =
  filepath_Join :: "string \<Rightarrow> string \<Rightarrow> string"
  flock_TryLock :: "bool \<times> string option"
  exec_LookPath :: "string \<Rightarrow> string option"
  pmset_Output :: "string \<times> string option"
  security_CombinedOutput :: "string \<Rightarrow> string \<Rightarrow> string \<times> string option"
  restic_Run :: "string \<Rightarrow> string list \<Rightarrow> env \<Rightarrow> CommandResult"
  config_LoadDefaultConfig :: "string option"
  svc_PutMetricData :: "string option"
  os_Environ :: env
  time_Since :: nat

subsection \<open>Process state and control\<close>

text \<open>
  The mutable state of the process: its environment and the trace of interactions so far.
\<close>

record proc =
  environ :: env
  trace :: "event list"

definition emit :: "event \<Rightarrow> proc \<Rightarrow> proc" where
  "emit e st = st\<lparr>trace := trace st @ [e]\<rparr>"

text \<open>
  How a Go function hands control back: it returns a value (\<open>Ok\<close>), the process is ended
  by \<^verbatim>\<open>os.Exit(code)\<close> (\<open>Exit\<close>; \<^verbatim>\<open>log.Fatal\<close> is a log entry followed by \<^verbatim>\<open>os.Exit(1)\<close>), or
  it panics (\<open>Panic\<close>; the only panic the source can raise is the index \<^verbatim>\<open>args[0]\<close> out of
  range).
\<close>

datatype 'a ctl = Ok 'a | Exit int | Panic

text \<open>How the process ended.\<close>

datatype status = Returned | Exited int | Panicked

text \<open>
  The exit status the parent process sees: \<^verbatim>\<open>0\<close> when \<^verbatim>\<open>main\<close> returns, the argument of
  \<^verbatim>\<open>os.Exit\<close>, and \<^verbatim>\<open>2\<close> for a Go program that dies of a panic.
\<close>

fun exit_code :: "status \<Rightarrow> int" where
  "exit_code Returned = 0"
| "exit_code (Exited n) = n"
| "exit_code Panicked = 2"

section \<open>Library functions on strings\<close>

text \<open>
  Strings are byte lists, as Go's are. \<^verbatim>\<open>strings.TrimSpace\<close> (and \<^verbatim>\<open>bytes.TrimSpace\<close>)
  removes the leading and trailing white space as \<^verbatim>\<open>unicode.IsSpace\<close> defines it; in UTF-8
  these are the following byte sequences (U+0009 to U+000D, U+0020, U+0085, U+00A0, U+1680,
  U+2000 to U+200A, U+2028, U+2029, U+202F, U+205F, U+3000).
\<close>

definition spaceRunes :: "string list" where
  "spaceRunes =
    [[CHR 0x09], [CHR 0x0A], [CHR 0x0B], [CHR 0x0C], [CHR 0x0D], [CHR 0x20],
     [CHR 0xC2, CHR 0x85], [CHR 0xC2, CHR 0xA0],
     [CHR 0xE1, CHR 0x9A, CHR 0x80],
     [CHR 0xE2, CHR 0x80, CHR 0x80], [CHR 0xE2, CHR 0x80, CHR 0x81],
     [CHR 0xE2, CHR 0x80, CHR 0x82], [CHR 0xE2, CHR 0x80, CHR 0x83],
     [CHR 0xE2, CHR 0x80, CHR 0x84], [CHR 0xE2, CHR 0x80, CHR 0x85],
     [CHR 0xE2, CHR 0x80, CHR 0x86], [CHR 0xE2, CHR 0x80, CHR 0x87],
     [CHR 0xE2, CHR 0x80, CHR 0x88], [CHR 0xE2, CHR 0x80, CHR 0x89],
     [CHR 0xE2, CHR 0x80, CHR 0x8A],
     [CHR 0xE2, CHR 0x80, CHR 0xA8], [CHR 0xE2, CHR 0x80, CHR 0xA9],
     [CHR 0xE2, CHR 0x80, CHR 0xAF],
     [CHR 0xE2, CHR 0x81, CHR 0x9F],
     [CHR 0xE3, CHR 0x80, CHR 0x80]]"

text \<open>
  The width in bytes of the rune of \<open>ps\<close> that \<open>s\<close> starts with, \<open>0\<close> when it starts with
  none of them.
\<close>

definition leadingWidth :: "string list \<Rightarrow> string \<Rightarrow> nat" where
  "leadingWidth ps s =
     (case find (\<lambda>p. p \<noteq> [] \<and> prefix p s) ps of None \<Rightarrow> 0 | Some p \<Rightarrow> length p)"

function trimLeading :: "string list \<Rightarrow> string \<Rightarrow> string" where
  "trimLeading ps s =
     (if leadingWidth ps s = 0 then s else trimLeading ps (drop (leadingWidth ps s) s))"
  by pat_completeness auto
termination
proof (relation "measure (\<lambda>(ps, s). length s)")
  show "wf (measure (\<lambda>(ps, s). length s))" by simp
next
  fix ps :: "string list" and s :: string
  assume "leadingWidth ps s \<noteq> 0"
  moreover have "leadingWidth ps s \<le> length s"
    by (auto simp: leadingWidth_def find_Some_iff prefix_length_le split: option.splits)
  ultimately show "((ps, drop (leadingWidth ps s) s), (ps, s)) \<in> measure (\<lambda>(ps, s). length s)"
    by simp
qed

declare trimLeading.simps [simp del]

definition TrimLeft :: "string \<Rightarrow> string" where
  "TrimLeft s = trimLeading spaceRunes s"

definition TrimRight :: "string \<Rightarrow> string" where
  "TrimRight s = rev (trimLeading (map rev spaceRunes) (rev s))"

definition TrimSpace :: "string \<Rightarrow> string" where
  "TrimSpace s = TrimRight (TrimLeft s)"

text \<open>
  \<^verbatim>\<open>strings.Split(s, sep)\<close> for a separator of one byte (the source only splits at
  \<^verbatim>\<open>"\n"\<close>): the pieces between the separators, so one piece more than there are
  separators, and the one empty piece for the empty string.
\<close>

fun Split :: "string \<Rightarrow> char \<Rightarrow> string list" where
  "Split [] sep = [[]]"
| "Split (c # cs) sep =
     (if c = sep then [] # Split cs sep
      else (case Split cs sep of [] \<Rightarrow> [[c]] | l # ls \<Rightarrow> (c # l) # ls))"

text \<open>\<^verbatim>\<open>strings.Contains(s, substr)\<close>.\<close>

definition Contains :: "string \<Rightarrow> string \<Rightarrow> bool" where
  "Contains s substr = list_ex (prefix substr) (suffixes s)"

section \<open>The program\<close>

subsection \<open>Sequencing\<close>

text \<open>
  \<open>andThen m f\<close> continues with \<open>f\<close> when \<open>m\<close> returned, and stops where \<open>m\<close> ended the
  process or panicked.
\<close>

definition andThen :: "proc \<times> 'a ctl \<Rightarrow> ('a \<Rightarrow> proc \<Rightarrow> proc \<times> 'b ctl) \<Rightarrow> proc \<times> 'b ctl" where
  "andThen m f =
     (case m of
        (st, Ok x) \<Rightarrow> f x st
      | (st, Exit n) \<Rightarrow> (st, Exit n)
      | (st, Panic) \<Rightarrow> (st, Panic))"

text \<open>
  \<^verbatim>\<open>os.Setenv(key, value)\<close>. The library rejects an empty name, a name that holds \<^verbatim>\<open>=\<close> or
  a NUL byte, and a value that holds a NUL byte: it then returns an error (\<^verbatim>\<open>EINVAL\<close>) and
  leaves the environment as it is. Otherwise it overwrites the entry of a name that is
  present and appends one that is not, which is \<^const>\<open>AList.update\<close>.
\<close>

definition validSetenv :: "string \<Rightarrow> string \<Rightarrow> bool" where
  "validSetenv key v =
     (key \<noteq> [] \<and> CHR ''='' \<notin> set key \<and> CHR 0x00 \<notin> set key \<and> CHR 0x00 \<notin> set v)"

definition Setenv :: "string \<Rightarrow> string \<Rightarrow> proc \<Rightarrow> proc \<times> string option" where
  "Setenv key v st =
     (if validSetenv key v then (st\<lparr>environ := AList.update key v (environ st)\<rparr>, None)
      else (st, Some ''setenv: invalid argument''))"

subsection \<open>\<^verbatim>\<open>isOnPower\<close>\<close>

definition isOnPower :: "world \<Rightarrow> proc \<Rightarrow> proc \<times> (bool \<times> string option)" where
  "isOnPower w st =
     (let st1 = emit RunPmset st;
          (output, err) = pmset_Output w
      in case err of
           Some e \<Rightarrow> (st1, (False, Some (''failed to execute pmset: '' @ e)))
         | None \<Rightarrow> (st1, (Contains (TrimSpace output) ''AC Power'', None)))"

subsection \<open>\<^verbatim>\<open>getSecurityData\<close>\<close>

definition getSecurityData :: "world \<Rightarrow> string \<Rightarrow> string \<Rightarrow> proc \<Rightarrow> proc \<times> string ctl" where
  "getSecurityData w service account st =
     (let st1 = emit (RunSecurity service account) st;
          (out, err) = security_CombinedOutput w service account
      in case err of
           Some e \<Rightarrow>
             (emit (Log FatalLevel ''cannot get security data''
                      [(''cmd'', FStr ''security''), (''err'', FErr e), (''srv'', FStr service)]) st1,
              Exit 1)
         | None \<Rightarrow> (st1, Ok (TrimSpace out)))"

subsection \<open>\<^verbatim>\<open>runResticCommand\<close>\<close>

text \<open>
  The two loops of \<^verbatim>\<open>runResticCommand\<close> differ in the level only. Each non-empty line
  builds its fields, which reads \<^verbatim>\<open>args[0]\<close> and panics when there is none, and then logs
  the line.
\<close>

fun logLines :: "level \<Rightarrow> string \<Rightarrow> string list \<Rightarrow> string list \<Rightarrow> proc \<Rightarrow> proc \<times> unit ctl" where
  "logLines lvl path args [] st = (st, Ok ())"
| "logLines lvl path args (line # rest) st =
     (if line \<noteq> [] then
        (case args of
           [] \<Rightarrow> (st, Panic)
         | operation # _ \<Rightarrow>
             logLines lvl path args rest
               (emit (Log lvl line [(''cmd'', FStr path), (''operation'', FStr operation)]) st))
      else logLines lvl path args rest st)"

definition runResticCommand ::
  "Config \<Rightarrow> world \<Rightarrow> string list \<Rightarrow> proc \<Rightarrow> proc \<times> string option ctl" where
  "runResticCommand cfg w args st =
     (let path = Path (Restic cfg);
          res = restic_Run w path args (environ st);
          st1 = emit (RunRestic path args (environ st)) st
      in case run_err res of
           Some e \<Rightarrow>
             andThen (logLines ErrorLevel path args (Split (TrimSpace (stderr res)) (CHR 0x0A)) st1)
               (\<lambda>_ st2.
                  case args of
                    [] \<Rightarrow> (st2, Panic)
                  | operation # _ \<Rightarrow>
                      (emit (Log ErrorLevel ''failed to execute the command''
                               [(''cmd'', FStr path), (''operation'', FStr operation), (''err'', FErr e)])
                         st2,
                       Ok (Some e)))
         | None \<Rightarrow>
             andThen (logLines InfoLevel path args (Split (TrimSpace (stdout res)) (CHR 0x0A)) st1)
               (\<lambda>_ st2. (st2, Ok None)))"

subsection \<open>\<^verbatim>\<open>sendAwsMetrics\<close>\<close>

definition metricData :: "Config \<Rightarrow> nat \<Rightarrow> MetricDatum list" where
  "metricData cfg duration =
     [\<lparr>MetricName = ''BackupDuration'', DimensionName = ''Environment'',
       DimensionValue = HostName cfg, Unit = ''Seconds'', Value = DurationSeconds duration\<rparr>,
      \<lparr>MetricName = ''BackupCount'', DimensionName = ''Environment'',
       DimensionValue = HostName cfg, Unit = ''Count'', Value = Float64 1\<rparr>]"

definition sendAwsMetrics :: "Config \<Rightarrow> world \<Rightarrow> nat \<Rightarrow> proc \<Rightarrow> proc \<times> string option" where
  "sendAwsMetrics cfg w duration st =
     (let st1 = emit LoadDefaultConfig st
      in case config_LoadDefaultConfig w of
           Some e \<Rightarrow>
             (emit (Log ErrorLevel ''cannot load AWS SDK config'' [(''err'', FErr e)]) st1, Some e)
         | None \<Rightarrow>
             (let st2 = emit (PutMetricData ''ResticBackup'' (metricData cfg duration)) st1
              in case svc_PutMetricData w of
                   Some e \<Rightarrow>
                     (emit (Log ErrorLevel ''cannot put metric data to CloudWatch'' [(''err'', FErr e)]) st2,
                      Some e)
                 | None \<Rightarrow>
                     (emit (Log InfoLevel ''Sent backup metrics to CloudWatch'' []) st2, None)))"

subsection \<open>\<^verbatim>\<open>setupEnv\<close>\<close>

text \<open>
  Each line fetches a secret and hands it to \<^verbatim>\<open>os.Setenv\<close>, whose error result the source
  drops (\<open>fst\<close> keeps the state only).
\<close>

definition setupEnv :: "Config \<Rightarrow> world \<Rightarrow> proc \<Rightarrow> proc \<times> unit ctl" where
  "setupEnv cfg w st =
     andThen (getSecurityData w (SecurityService cfg) ''aws-region'' st) (\<lambda>v1 st.
     andThen (getSecurityData w (SecurityService cfg) ''aws-access-key-id''
                (fst (Setenv ''AWS_DEFAULT_REGION'' v1 st))) (\<lambda>v2 st.
     andThen (getSecurityData w (SecurityService cfg) ''aws-secret-access-key''
                (fst (Setenv ''AWS_ACCESS_KEY_ID'' v2 st))) (\<lambda>v3 st.
     andThen (getSecurityData w (SecurityService cfg) ''repository''
                (fst (Setenv ''AWS_SECRET_ACCESS_KEY'' v3 st))) (\<lambda>v4 st.
     andThen (getSecurityData w (SecurityService cfg) ''password''
                (fst (Setenv ''RESTIC_REPOSITORY'' v4 st))) (\<lambda>v5 st.
     (fst (Setenv ''RESTIC_PASSWORD'' v5 st), Ok ()))))))"

subsection \<open>\<^verbatim>\<open>main\<close>\<close>

definition backupArgs :: "Config \<Rightarrow> world \<Rightarrow> string list" where
  "backupArgs cfg w =
     [''backup'',
      ''-o'', ''s3.storage-class='' @ S3Storage (Restic cfg),
      ''--files-from'', filepath_Join w (BackupDir cfg) (FilesFrom (Restic cfg)),
      ''--exclude-file'', filepath_Join w (BackupDir cfg) (ExcludeFile (Restic cfg))]"

definition forgetArgs :: "string list" where
  "forgetArgs =
     [''forget'', ''-q'',
      ''--prune'',
      ''--keep-hourly'', ''4'',
      ''--keep-daily'', ''7'',
      ''--keep-weekly'', ''5'',
      ''--keep-monthly'', ''12'',
      ''--keep-yearly'', ''5'',
      ''--keep-tag'', ''nodelete'']"

text \<open>
  \<^verbatim>\<open>main\<close> is modelled in four pieces, from its end to its start. The last lines: the
  metrics and the completion entry.
\<close>

definition mainReport :: "Config \<Rightarrow> world \<Rightarrow> proc \<Rightarrow> proc \<times> unit ctl" where
  "mainReport cfg w st =
     (let elapsedTime = time_Since w;
          (st1, err) = sendAwsMetrics cfg w elapsedTime st;
          st2 = (case err of
                   Some e \<Rightarrow>
                     emit (Log ErrorLevel ''cannot send backup metrics to CloudWatch''
                             [(''err'', FErr e)]) st1
                 | None \<Rightarrow> st1)
      in (emit (Log InfoLevel ''Backup completed successfully''
                  [(''duration'', FDur elapsedTime)]) st2,
          Ok ()))"

text \<open>
  The part from \<^verbatim>\<open>if appConfig.CleanupOldBackups\<close> on, reached when the backup command
  has succeeded.
\<close>

definition mainAfterBackup :: "Config \<Rightarrow> world \<Rightarrow> proc \<Rightarrow> proc \<times> unit ctl" where
  "mainAfterBackup cfg w st =
     andThen
       (if CleanupOldBackups cfg then
          andThen (runResticCommand cfg w forgetArgs st) (\<lambda>err st.
            case err of
              Some e \<Rightarrow>
                (emit (Log ErrorLevel ''Forget failed''
                         [(''cmd'', FStr (Path (Restic cfg))), (''command'', FStr ''forget'')]) st,
                 Ok ())
            | None \<Rightarrow> (st, Ok ()))
        else (st, Ok ()))
       (\<lambda>_ st. mainReport cfg w st)"

text \<open>
  The part of \<^verbatim>\<open>main\<close> below \<^verbatim>\<open>defer fileLock.Unlock()\<close>: \<open>Ok ()\<close> is a \<^verbatim>\<open>return\<close>,
  \<open>Exit 1\<close> is \<^verbatim>\<open>os.Exit(1)\<close>.
\<close>

definition mainLocked :: "Config \<Rightarrow> world \<Rightarrow> proc \<Rightarrow> proc \<times> unit ctl" where
  "mainLocked cfg w st =
     (let st1 = emit (LookPath (Path (Restic cfg))) st
      in case exec_LookPath w (Path (Restic cfg)) of
           Some e \<Rightarrow>
             (emit (Log ErrorLevel ''cannot find the restic command''
                      [(''cmd'', FStr (Path (Restic cfg)))]) st1,
              Ok ())
         | None \<Rightarrow>
             (let (st2, isAcPower, err) = isOnPower w st1
              in case err of
                   Some e \<Rightarrow>
                     (emit (Log ErrorLevel ''cannot check if the system is running on AC power''
                              [(''err'', FErr e)]) st2,
                      Ok ())
                 | None \<Rightarrow>
                     if RequireAcPower cfg \<and> \<not> isAcPower then
                       (emit (Log WarnLevel
                                ''The system is not running on AC power. Skipping backup.'' []) st2,
                        Ok ())
                     else
                       andThen (setupEnv cfg w st2) (\<lambda>_ st3.
                       andThen (runResticCommand cfg w (backupArgs cfg w) st3) (\<lambda>err st4.
                         case err of
                           Some e \<Rightarrow>
                             (emit (Log ErrorLevel ''Backup failed''
                                      [(''cmd'', FStr (Path (Restic cfg))),
                                       (''command'', FStr ''backup'')]) st4,
                              Exit 1)
                         | None \<Rightarrow> mainAfterBackup cfg w st4))))"

text \<open>
  \<^verbatim>\<open>main\<close>. The deferred \<^verbatim>\<open>fileLock.Unlock()\<close> runs when the function returns and when it
  panics; \<^verbatim>\<open>os.Exit\<close> ends the process at once and runs no deferred call.
\<close>

definition main :: "Config \<Rightarrow> world \<Rightarrow> proc \<times> status" where
  "main cfg w =
     (let lockPath = filepath_Join w (BackupDir cfg) (LockFile cfg);
          st0 = emit (TryLock lockPath) \<lparr>environ = os_Environ w, trace = []\<rparr>;
          (locked, err) = flock_TryLock w
      in case err of
           Some e \<Rightarrow>
             (emit (Log ErrorLevel ''cannot lock the lock file'' [(''err'', FErr e)]) st0, Exited 1)
         | None \<Rightarrow>
             if \<not> locked then
               (emit (Log WarnLevel
                        ''Another instance of the program is already running. Exiting.'' []) st0,
                Returned)
             else
               (case mainLocked cfg w st0 of
                  (st, Ok _) \<Rightarrow> (emit (Unlock lockPath) st, Returned)
                | (st, Exit n) \<Rightarrow> (st, Exited n)
                | (st, Panic) \<Rightarrow> (emit (Unlock lockPath) st, Panicked)))"

section \<open>Vocabulary of the properties\<close>

subsection \<open>What the outside world answered\<close>

definition initial :: "world \<Rightarrow> proc" where
  "initial w = \<lparr>environ = os_Environ w, trace = []\<rparr>"

definition lockPath :: "Config \<Rightarrow> world \<Rightarrow> string" where
  "lockPath cfg w = filepath_Join w (BackupDir cfg) (LockFile cfg)"

text \<open>The three answers of \<^verbatim>\<open>TryLock\<close> that \<^verbatim>\<open>main\<close> tells apart, in the order it tests them.\<close>

definition lockError :: "world \<Rightarrow> bool" where
  "lockError w = (snd (flock_TryLock w) \<noteq> None)"

definition lockBusy :: "world \<Rightarrow> bool" where
  "lockBusy w = (snd (flock_TryLock w) = None \<and> \<not> fst (flock_TryLock w))"

definition lockAcquired :: "world \<Rightarrow> bool" where
  "lockAcquired w = (snd (flock_TryLock w) = None \<and> fst (flock_TryLock w))"

definition engineFound :: "Config \<Rightarrow> world \<Rightarrow> bool" where
  "engineFound cfg w = (exec_LookPath w (Path (Restic cfg)) = None)"

text \<open>What \<^verbatim>\<open>isOnPower\<close> returns in this world.\<close>

definition powerReport :: "world \<Rightarrow> bool \<times> string option" where
  "powerReport w = snd (isOnPower w (initial w))"

text \<open>The power check passes: no error, and on AC power where the settings require it.\<close>

definition powerOk :: "Config \<Rightarrow> world \<Rightarrow> bool" where
  "powerOk cfg w =
     (snd (powerReport w) = None \<and> \<not> (RequireAcPower cfg \<and> \<not> fst (powerReport w)))"

text \<open>The five accounts \<^verbatim>\<open>setupEnv\<close> asks for and the variables it sets, in its order.\<close>

definition accounts :: "string list" where
  "accounts = [''aws-region'', ''aws-access-key-id'', ''aws-secret-access-key'',
               ''repository'', ''password'']"


text \<open>The \<^verbatim>\<open>security\<close> command answers without error for every account.\<close>

definition secretsOk :: "Config \<Rightarrow> world \<Rightarrow> bool" where
  "secretsOk cfg w =
     list_all (\<lambda>a. snd (security_CombinedOutput w (SecurityService cfg) a) = None) accounts"

text \<open>What \<^verbatim>\<open>getSecurityData\<close> returns for an account when the command has no error.\<close>

definition secret :: "Config \<Rightarrow> world \<Rightarrow> string \<Rightarrow> string" where
  "secret cfg w a = TrimSpace (fst (security_CombinedOutput w (SecurityService cfg) a))"

text \<open>The environment \<^verbatim>\<open>os.Setenv\<close> leaves, its error dropped.\<close>

definition envWith :: "string \<Rightarrow> string \<Rightarrow> env \<Rightarrow> env" where
  "envWith key v e = environ (fst (Setenv key v \<lparr>environ = e, trace = []\<rparr>))"

text \<open>The run gets as far as \<^verbatim>\<open>setupEnv\<close>, and as far as the backup command.\<close>

definition setupReached :: "Config \<Rightarrow> world \<Rightarrow> bool" where
  "setupReached cfg w = (lockAcquired w \<and> engineFound cfg w \<and> powerOk cfg w)"

definition backupReached :: "Config \<Rightarrow> world \<Rightarrow> bool" where
  "backupReached cfg w = (setupReached cfg w \<and> secretsOk cfg w)"

text \<open>The environment of the process once \<^verbatim>\<open>setupEnv\<close> has run from the initial one.\<close>

definition envAfterSetup :: "Config \<Rightarrow> world \<Rightarrow> env" where
  "envAfterSetup cfg w = environ (fst (setupEnv cfg w (initial w)))"

text \<open>What the engine answers to the backup and to the forget command of this run.\<close>

definition backupResult :: "Config \<Rightarrow> world \<Rightarrow> CommandResult" where
  "backupResult cfg w =
     restic_Run w (Path (Restic cfg)) (backupArgs cfg w) (envAfterSetup cfg w)"

definition forgetResult :: "Config \<Rightarrow> world \<Rightarrow> CommandResult" where
  "forgetResult cfg w = restic_Run w (Path (Restic cfg)) forgetArgs (envAfterSetup cfg w)"

text \<open>The first account, in the order of \<^verbatim>\<open>setupEnv\<close>, for which the command fails.\<close>

definition failingAccount :: "Config \<Rightarrow> world \<Rightarrow> string option" where
  "failingAccount cfg w =
     find (\<lambda>a. snd (security_CombinedOutput w (SecurityService cfg) a) \<noteq> None) accounts"

subsection \<open>What the trace shows\<close>

fun isUnlock :: "event \<Rightarrow> bool" where
  "isUnlock (Unlock p) = True"
| "isUnlock e = False"

fun isRunRestic :: "event \<Rightarrow> bool" where
  "isRunRestic (RunRestic path args e) = True"
| "isRunRestic e = False"

fun isRunSecurity :: "event \<Rightarrow> bool" where
  "isRunSecurity (RunSecurity service account) = True"
| "isRunSecurity e = False"

fun isMetrics :: "event \<Rightarrow> bool" where
  "isMetrics LoadDefaultConfig = True"
| "isMetrics (PutMetricData namespace d) = True"
| "isMetrics e = False"

text \<open>A log entry with this message, at any level.\<close>

fun isLogOf :: "string \<Rightarrow> event \<Rightarrow> bool" where
  "isLogOf m (Log lvl msg fs) = (msg = m)"
| "isLogOf m e = False"

fun isLog :: "event \<Rightarrow> bool" where
  "isLog (Log lvl msg fs) = True"
| "isLog e = False"

text \<open>The engine was started with this first argument.\<close>

fun isOperation :: "string \<Rightarrow> event \<Rightarrow> bool" where
  "isOperation operation (RunRestic path args e) = (take 1 args = [operation])"
| "isOperation operation e = False"

text \<open>
  The lines \<^verbatim>\<open>runResticCommand\<close> logs from a buffer, and the entries it makes of them for
  an operation.
\<close>

definition nonEmptyLines :: "string \<Rightarrow> string list" where
  "nonEmptyLines s = filter (\<lambda>line. line \<noteq> []) (Split (TrimSpace s) (CHR 0x0A))"

definition lineEvents :: "level \<Rightarrow> string \<Rightarrow> string \<Rightarrow> string \<Rightarrow> event list" where
  "lineEvents lvl path operation s =
     map (\<lambda>line. Log lvl line [(''cmd'', FStr path), (''operation'', FStr operation)])
       (nonEmptyLines s)"

text \<open>
  The interactions of a run up to the backup command, when every step before it succeeds.
\<close>

definition setupTrace :: "Config \<Rightarrow> world \<Rightarrow> event list" where
  "setupTrace cfg w =
     [TryLock (lockPath cfg w), LookPath (Path (Restic cfg)), RunPmset] @
     map (RunSecurity (SecurityService cfg)) accounts"

text \<open>
  The interactions of the last lines of \<^verbatim>\<open>main\<close>, and of everything after a successful
  backup command.
\<close>

definition reportEvents :: "Config \<Rightarrow> world \<Rightarrow> event list" where
  "reportEvents cfg w = trace (fst (mainReport cfg w \<lparr>environ = [], trace = []\<rparr>))"

definition afterBackupEvents :: "Config \<Rightarrow> world \<Rightarrow> event list" where
  "afterBackupEvents cfg w =
     trace (fst (mainAfterBackup cfg w \<lparr>environ = envAfterSetup cfg w, trace = []\<rparr>))"

subsection \<open>What the specification means by the lines of a buffer\<close>

text \<open>
  These three definitions follow the words of the specification, not the source; the
  properties compare them with \<^const>\<open>TrimSpace\<close> and \<^const>\<open>Split\<close>.

  \<^verbatim>\<open>strings.Join\<close> for a separator of one byte: the pieces with the separator between them.
\<close>

fun Join :: "string list \<Rightarrow> char \<Rightarrow> string" where
  "Join [] sep = []"
| "Join [x] sep = x"
| "Join (x # y # ys) sep = x @ sep # Join (y # ys) sep"

text \<open>
  \<open>t\<close> is the buffer \<open>b\<close> without its leading and trailing white space: what is cut off at
  either end is a sequence of white-space runes, and \<open>t\<close> neither starts nor ends with one.
\<close>

definition specTrimmed :: "string \<Rightarrow> string \<Rightarrow> bool" where
  "specTrimmed b t =
     ((\<exists>ls rs. set ls \<subseteq> set spaceRunes \<and> set rs \<subseteq> set spaceRunes
                \<and> b = concat ls @ t @ concat rs)
      \<and> (\<forall>p \<in> set spaceRunes. \<not> prefix p t \<and> \<not> suffix p t))"

text \<open>
  \<open>ls\<close> are the lines of \<open>t\<close>: no line holds a newline, and the lines with a newline
  between them are \<open>t\<close>.
\<close>

definition specLines :: "string \<Rightarrow> string list \<Rightarrow> bool" where
  "specLines t ls =
     (ls \<noteq> [] \<and> Join ls (CHR 0x0A) = t \<and> (\<forall>l \<in> set ls. CHR 0x0A \<notin> set l))"

section \<open>Example runs\<close>

definition exampleConfig :: Config where
  "exampleConfig =
     \<lparr>BackupDir = ''/Users/me/.restic_backup'',
      LockFile = ''.restic_backup_lock'',
      LogFile = ''restic_backup.log'',
      Restic = \<lparr>Path = ''/usr/local/bin/restic'', FilesFrom = ''backup.txt'',
                ExcludeFile = ''exclude.txt'', S3Storage = ''STANDARD_IA''\<rparr>,
      HostName = ''localhost'',
      SecurityService = ''restic_backup'',
      RequireAcPower = True,
      CleanupOldBackups = True\<rparr>"

text \<open>
  A world in which every step succeeds: the lock is free, the engine is found, the host
  is on AC power, every secret is there and the engine exits with status \<open>0\<close>.
\<close>

definition exampleWorld :: world where
  "exampleWorld =
     \<lparr>filepath_Join = (\<lambda>a b. a @ ''/'' @ b),
      flock_TryLock = (True, None),
      exec_LookPath = (\<lambda>f. None),
      pmset_Output = ([CHR 0x20] @ ''-InternalBattery-0 100%; AC Power'' @ [CHR 0x0A], None),
      security_CombinedOutput = (\<lambda>service account. (''s3cr3t'' @ [CHR 0x0A], None)),
      restic_Run = (\<lambda>path args e.
         \<lparr>stdout = ''snapshot 1a2b saved'' @ [CHR 0x0A], stderr = [], run_err = None\<rparr>),
      config_LoadDefaultConfig = None,
      svc_PutMetricData = None,
      os_Environ = [(''HOME'', ''/Users/me''), (''PATH'', ''/usr/bin:/bin'')],
      time_Since = 1500000000\<rparr>"

text \<open>The lock is held by another instance; taking the lock fails.\<close>

definition busyWorld :: world where
  "busyWorld = exampleWorld\<lparr>flock_TryLock := (False, None)\<rparr>"

definition lockErrorWorld :: world where
  "lockErrorWorld = exampleWorld\<lparr>flock_TryLock := (False, Some ''permission denied'')\<rparr>"

text \<open>The engine is not on the search path.\<close>

definition noEngineWorld :: world where
  "noEngineWorld =
     exampleWorld\<lparr>exec_LookPath := (\<lambda>f. Some ''executable file not found in $PATH'')\<rparr>"

text \<open>The host runs on its battery.\<close>

definition batteryWorld :: world where
  "batteryWorld =
     exampleWorld\<lparr>pmset_Output :=
       ([CHR 0x20] @ ''-InternalBattery-0 87%; discharging; Battery Power'' @ [CHR 0x0A], None)\<rparr>"

text \<open>
  The secret \<^verbatim>\<open>repository\<close> cannot be fetched (the command is killed at its deadline);
  every secret is empty.
\<close>

definition secretTimeoutWorld :: world where
  "secretTimeoutWorld =
     exampleWorld\<lparr>security_CombinedOutput := (\<lambda>service account.
       if account = ''repository'' then ([], Some ''signal: killed'')
       else (''s3cr3t'' @ [CHR 0x0A], None))\<rparr>"

definition emptySecretWorld :: world where
  "emptySecretWorld = exampleWorld\<lparr>security_CombinedOutput := (\<lambda>service account. ([], None))\<rparr>"

text \<open>
  The engine fails with status \<open>2\<close> and a line on its standard error; the engine
  fails for \<^verbatim>\<open>forget\<close> only; the engine succeeds with a warning on its standard error.
\<close>

definition backupFailWorld :: world where
  "backupFailWorld =
     exampleWorld\<lparr>restic_Run := (\<lambda>path args e.
       \<lparr>stdout = ''scanning'' @ [CHR 0x0A],
        stderr = ''repository locked'' @ [CHR 0x0A],
        run_err = Some ''exit status 2''\<rparr>)\<rparr>"

definition forgetFailWorld :: world where
  "forgetFailWorld =
     exampleWorld\<lparr>restic_Run := (\<lambda>path args e.
       if take 1 args = [''forget''] then
         \<lparr>stdout = [], stderr = ''unable to prune'' @ [CHR 0x0A], run_err = Some ''exit status 1''\<rparr>
       else
         \<lparr>stdout = ''snapshot 1a2b saved'' @ [CHR 0x0A], stderr = [], run_err = None\<rparr>)\<rparr>"

definition warningWorld :: world where
  "warningWorld =
     exampleWorld\<lparr>restic_Run := (\<lambda>path args e.
       \<lparr>stdout = ''snapshot 1a2b saved'' @ [CHR 0x0A],
        stderr = ''warning: file changed'' @ [CHR 0x0A],
        run_err = None\<rparr>)\<rparr>"

text \<open>
  The engine fails and its standard error starts with a line of one space, has another
  such line in the middle and ends with a line of one tabulator; the engine succeeds with
  an empty line inside its standard output and white space around it.
\<close>

definition noisyFailWorld :: world where
  "noisyFailWorld =
     exampleWorld\<lparr>restic_Run := (\<lambda>path args e.
       \<lparr>stdout = ''scanning'' @ [CHR 0x0A],
        stderr = [CHR 0x20, CHR 0x0A] @ ''repository locked'' @ [CHR 0x0A, CHR 0x20, CHR 0x0A]
                 @ ''unable to create lock'' @ [CHR 0x0A, CHR 0x09, CHR 0x0A],
        run_err = Some ''exit status 1''\<rparr>)\<rparr>"

definition noisyOkWorld :: world where
  "noisyOkWorld =
     exampleWorld\<lparr>restic_Run := (\<lambda>path args e.
       \<lparr>stdout = [CHR 0x0A] @ ''snapshot 1a2b saved'' @ [CHR 0x0A, CHR 0x0A]
                 @ ''processed 3 files'' @ [CHR 0x20, CHR 0x0A],
        stderr = ''warning: file changed'' @ [CHR 0x0A],
        run_err = None\<rparr>)\<rparr>"


section \<open>Auxiliary facts\<close>

subsection \<open>The steps of a run\<close>

text \<open>
  What each function of the source does to the trace and the environment, case by case.
\<close>

lemma logLines_Cons:
  "logLines lvl path (operation # as) ls st =
     (st\<lparr>trace := trace st @
          map (\<lambda>line. Log lvl line [(''cmd'', FStr path), (''operation'', FStr operation)])
            (filter (\<lambda>line. line \<noteq> []) ls)\<rparr>, Ok ())"
  by (induction ls arbitrary: st) (simp_all add: emit_def)

lemma runResticCommand_failure:
  assumes "run_err (restic_Run w (Path (Restic cfg)) (operation # as) (environ st)) = Some e"
  shows "runResticCommand cfg w (operation # as) st =
     (st\<lparr>trace := trace st @
          RunRestic (Path (Restic cfg)) (operation # as) (environ st) #
          lineEvents ErrorLevel (Path (Restic cfg)) operation
            (stderr (restic_Run w (Path (Restic cfg)) (operation # as) (environ st))) @
          [Log ErrorLevel ''failed to execute the command''
             [(''cmd'', FStr (Path (Restic cfg))), (''operation'', FStr operation), (''err'', FErr e)]]\<rparr>,
      Ok (Some e))"
  using assms
  by (simp add: runResticCommand_def Let_def logLines_Cons andThen_def emit_def lineEvents_def
      nonEmptyLines_def)

lemma runResticCommand_success:
  assumes "run_err (restic_Run w (Path (Restic cfg)) (operation # as) (environ st)) = None"
  shows "runResticCommand cfg w (operation # as) st =
     (st\<lparr>trace := trace st @
          RunRestic (Path (Restic cfg)) (operation # as) (environ st) #
          lineEvents InfoLevel (Path (Restic cfg)) operation
            (stdout (restic_Run w (Path (Restic cfg)) (operation # as) (environ st)))\<rparr>,
      Ok None)"
  using assms
  by (simp add: runResticCommand_def Let_def logLines_Cons andThen_def emit_def lineEvents_def
      nonEmptyLines_def)


lemma getSecurityData_ok:
  "snd (security_CombinedOutput w service account) = None \<Longrightarrow>
   getSecurityData w service account st =
     (emit (RunSecurity service account) st,
      Ok (TrimSpace (fst (security_CombinedOutput w service account))))"
  by (simp add: getSecurityData_def Let_def case_prod_beta)

lemma Setenv_eq: "fst (Setenv key v st) = st\<lparr>environ := envWith key v (environ st)\<rparr>"
  by (simp add: Setenv_def envWith_def)


lemma validSetenv_secretNames [simp]:
  "validSetenv ''AWS_DEFAULT_REGION'' v = (CHR 0x00 \<notin> set v)"
  "validSetenv ''AWS_ACCESS_KEY_ID'' v = (CHR 0x00 \<notin> set v)"
  "validSetenv ''AWS_SECRET_ACCESS_KEY'' v = (CHR 0x00 \<notin> set v)"
  "validSetenv ''RESTIC_REPOSITORY'' v = (CHR 0x00 \<notin> set v)"
  "validSetenv ''RESTIC_PASSWORD'' v = (CHR 0x00 \<notin> set v)"
  by (simp_all add: validSetenv_def)

lemma setupEnv_ok:
  assumes "secretsOk cfg w"
  shows "setupEnv cfg w st =
    (st\<lparr>environ :=
          envWith ''RESTIC_PASSWORD'' (secret cfg w ''password'')
         (envWith ''RESTIC_REPOSITORY'' (secret cfg w ''repository'')
         (envWith ''AWS_SECRET_ACCESS_KEY'' (secret cfg w ''aws-secret-access-key'')
         (envWith ''AWS_ACCESS_KEY_ID'' (secret cfg w ''aws-access-key-id'')
         (envWith ''AWS_DEFAULT_REGION'' (secret cfg w ''aws-region'') (environ st))))),
        trace := trace st @ map (RunSecurity (SecurityService cfg)) accounts\<rparr>, Ok ())"
  using assms
  by (simp add: setupEnv_def secretsOk_def accounts_def getSecurityData_ok andThen_def
      Setenv_eq emit_def secret_def)



lemma getSecurityData_fail:
  "snd (security_CombinedOutput w service account) = Some e \<Longrightarrow>
   getSecurityData w service account st =
     (st\<lparr>trace := trace st @ [RunSecurity service account,
         Log FatalLevel ''cannot get security data''
           [(''cmd'', FStr ''security''), (''err'', FErr e), (''srv'', FStr service)]]\<rparr>, Exit 1)"
  by (simp add: getSecurityData_def Let_def case_prod_beta emit_def)

lemma isOnPower_eq: "isOnPower w st = (emit RunPmset st, powerReport w)"
  by (simp add: isOnPower_def powerReport_def Let_def case_prod_beta split: option.splits)

subsection \<open>The paths of \<^verbatim>\<open>main\<close>\<close>

text \<open>
  One fact for each way through \<^verbatim>\<open>main\<close>: the whole trace and the way the process ends,
  from what the outside world answered.
\<close>

lemma main_lockError:
  assumes "snd (flock_TryLock w) = Some e"
  shows "main cfg w =
     (\<lparr>environ = os_Environ w,
       trace = [TryLock (lockPath cfg w),
                Log ErrorLevel ''cannot lock the lock file'' [(''err'', FErr e)]]\<rparr>, Exited 1)"
  using assms
  by (simp add: main_def Let_def case_prod_beta emit_def lockPath_def)

lemma main_lockBusy:
  assumes "lockBusy w"
  shows "main cfg w =
     (\<lparr>environ = os_Environ w,
       trace = [TryLock (lockPath cfg w),
                Log WarnLevel ''Another instance of the program is already running. Exiting.'' []]\<rparr>,
      Returned)"
  using assms
  by (simp add: main_def lockBusy_def Let_def case_prod_beta emit_def lockPath_def)

lemma main_lockAcquired:
  assumes "lockAcquired w"
  shows "main cfg w =
     (case mainLocked cfg w (emit (TryLock (lockPath cfg w)) (initial w)) of
        (st, Ok u) \<Rightarrow> (emit (Unlock (lockPath cfg w)) st, Returned)
      | (st, Exit n) \<Rightarrow> (st, Exited n)
      | (st, Panic) \<Rightarrow> (emit (Unlock (lockPath cfg w)) st, Panicked))"
  using assms
  by (simp add: main_def lockAcquired_def Let_def case_prod_beta lockPath_def initial_def)



lemma failingAccount_None: "failingAccount cfg w = None \<longleftrightarrow> secretsOk cfg w"
  by (auto simp add: failingAccount_def secretsOk_def find_None_iff list_all_iff)

lemma andThen_simps [simp]:
  "andThen (st, Ok x) f = f x st"
  "andThen (st, Exit n) f = (st, Exit n)"
  "andThen (st, Panic) f = (st, Panic)"
  by (simp_all add: andThen_def)

lemma failingAccount_cases:
  assumes "failingAccount cfg w = Some a"
  obtains
    (region) "a = ''aws-region''"
  | (key) "a = ''aws-access-key-id''"
      "snd (security_CombinedOutput w (SecurityService cfg) ''aws-region'') = None"
  | (secret) "a = ''aws-secret-access-key''"
      "snd (security_CombinedOutput w (SecurityService cfg) ''aws-region'') = None"
      "snd (security_CombinedOutput w (SecurityService cfg) ''aws-access-key-id'') = None"
  | (repository) "a = ''repository''"
      "snd (security_CombinedOutput w (SecurityService cfg) ''aws-region'') = None"
      "snd (security_CombinedOutput w (SecurityService cfg) ''aws-access-key-id'') = None"
      "snd (security_CombinedOutput w (SecurityService cfg) ''aws-secret-access-key'') = None"
  | (password) "a = ''password''"
      "snd (security_CombinedOutput w (SecurityService cfg) ''aws-region'') = None"
      "snd (security_CombinedOutput w (SecurityService cfg) ''aws-access-key-id'') = None"
      "snd (security_CombinedOutput w (SecurityService cfg) ''aws-secret-access-key'') = None"
      "snd (security_CombinedOutput w (SecurityService cfg) ''repository'') = None"
  using assms unfolding failingAccount_def accounts_def
  by (simp split: if_splits)

lemma setupEnv_fail:
  assumes "failingAccount cfg w = Some a"
    and "snd (security_CombinedOutput w (SecurityService cfg) a) = Some e"
  shows "trace (fst (setupEnv cfg w st)) =
      trace st @ map (RunSecurity (SecurityService cfg)) (takeWhile (\<lambda>b. b \<noteq> a) accounts) @
        [RunSecurity (SecurityService cfg) a,
         Log FatalLevel ''cannot get security data''
           [(''cmd'', FStr ''security''), (''err'', FErr e), (''srv'', FStr (SecurityService cfg))]]
    \<and> snd (setupEnv cfg w st) = Exit 1"
  using assms(1)
proof (cases rule: failingAccount_cases)
  case region
  with assms(2) show ?thesis
    by (simp add: setupEnv_def getSecurityData_ok getSecurityData_fail Setenv_eq emit_def
        accounts_def)
next
  case key
  with assms(2) show ?thesis
    by (simp add: setupEnv_def getSecurityData_ok getSecurityData_fail Setenv_eq emit_def
        accounts_def)
next
  case secret
  with assms(2) show ?thesis
    by (simp add: setupEnv_def getSecurityData_ok getSecurityData_fail Setenv_eq emit_def
        accounts_def)
next
  case repository
  with assms(2) show ?thesis
    by (simp add: setupEnv_def getSecurityData_ok getSecurityData_fail Setenv_eq emit_def
        accounts_def)
next
  case password
  with assms(2) show ?thesis
    by (simp add: setupEnv_def getSecurityData_ok getSecurityData_fail Setenv_eq emit_def
        accounts_def)
qed




lemma mainReport_eq:
  "mainReport cfg w st = (st\<lparr>trace := trace st @ reportEvents cfg w\<rparr>, Ok ())"
  by (simp add: mainReport_def reportEvents_def sendAwsMetrics_def Let_def emit_def
      split: option.splits)

lemma reportEvents_shape:
  "\<exists>evs. reportEvents cfg w =
     LoadDefaultConfig # evs @
     [Log InfoLevel ''Backup completed successfully'' [(''duration'', FDur (time_Since w))]]
     \<and> list_all (\<lambda>ev. isLog ev \<or> isMetrics ev) evs"
  by (simp add: mainReport_def reportEvents_def sendAwsMetrics_def Let_def emit_def
      split: option.splits)

lemma reportEvents_push:
  "config_LoadDefaultConfig w = None \<Longrightarrow>
   PutMetricData ''ResticBackup'' (metricData cfg (time_Since w)) \<in> set (reportEvents cfg w)"
  by (simp add: mainReport_def reportEvents_def sendAwsMetrics_def Let_def emit_def
      split: option.splits)

lemma mainAfterBackup_noCleanup:
  "\<not> CleanupOldBackups cfg \<Longrightarrow>
   mainAfterBackup cfg w st = (st\<lparr>trace := trace st @ reportEvents cfg w\<rparr>, Ok ())"
  by (simp add: mainAfterBackup_def mainReport_eq)

lemma forgetArgs_Cons: "forgetArgs = ''forget'' # tl forgetArgs"
  by (simp add: forgetArgs_def)

lemma mainAfterBackup_forgetOk:
  assumes "CleanupOldBackups cfg"
    and "run_err (restic_Run w (Path (Restic cfg)) forgetArgs (environ st)) = None"
  shows "mainAfterBackup cfg w st =
     (st\<lparr>trace := trace st @
          RunRestic (Path (Restic cfg)) forgetArgs (environ st) #
          lineEvents InfoLevel (Path (Restic cfg)) ''forget''
            (stdout (restic_Run w (Path (Restic cfg)) forgetArgs (environ st))) @
          reportEvents cfg w\<rparr>, Ok ())"
proof -
  from assms(2) have "run_err (restic_Run w (Path (Restic cfg)) (''forget'' # tl forgetArgs) (environ st)) = None"
    using forgetArgs_Cons by simp
  from runResticCommand_success [OF this]
  have "runResticCommand cfg w forgetArgs st =
     (st\<lparr>trace := trace st @
          RunRestic (Path (Restic cfg)) forgetArgs (environ st) #
          lineEvents InfoLevel (Path (Restic cfg)) ''forget''
            (stdout (restic_Run w (Path (Restic cfg)) forgetArgs (environ st)))\<rparr>, Ok None)"
    using forgetArgs_Cons by simp
  with assms(1) show ?thesis
    by (simp add: mainAfterBackup_def mainReport_eq)
qed

lemma mainAfterBackup_forgetFail:
  assumes "CleanupOldBackups cfg"
    and "run_err (restic_Run w (Path (Restic cfg)) forgetArgs (environ st)) = Some e"
  shows "mainAfterBackup cfg w st =
     (st\<lparr>trace := trace st @
          RunRestic (Path (Restic cfg)) forgetArgs (environ st) #
          lineEvents ErrorLevel (Path (Restic cfg)) ''forget''
            (stderr (restic_Run w (Path (Restic cfg)) forgetArgs (environ st))) @
          [Log ErrorLevel ''failed to execute the command''
             [(''cmd'', FStr (Path (Restic cfg))), (''operation'', FStr ''forget''), (''err'', FErr e)],
           Log ErrorLevel ''Forget failed''
             [(''cmd'', FStr (Path (Restic cfg))), (''command'', FStr ''forget'')]] @
          reportEvents cfg w\<rparr>, Ok ())"
proof -
  from assms(2) have "run_err (restic_Run w (Path (Restic cfg)) (''forget'' # tl forgetArgs) (environ st)) = Some e"
    using forgetArgs_Cons by simp
  from runResticCommand_failure [OF this]
  have "runResticCommand cfg w forgetArgs st =
     (st\<lparr>trace := trace st @
          RunRestic (Path (Restic cfg)) forgetArgs (environ st) #
          lineEvents ErrorLevel (Path (Restic cfg)) ''forget''
            (stderr (restic_Run w (Path (Restic cfg)) forgetArgs (environ st))) @
          [Log ErrorLevel ''failed to execute the command''
             [(''cmd'', FStr (Path (Restic cfg))), (''operation'', FStr ''forget''), (''err'', FErr e)]]\<rparr>,
      Ok (Some e))"
    using forgetArgs_Cons by simp
  with assms(1) show ?thesis
    by (simp add: mainAfterBackup_def mainReport_eq emit_def)
qed

lemma mainAfterBackup_eq:
  assumes "environ st = envAfterSetup cfg w"
  shows "mainAfterBackup cfg w st = (st\<lparr>trace := trace st @ afterBackupEvents cfg w\<rparr>, Ok ())"
proof (cases "CleanupOldBackups cfg")
  case False
  then show ?thesis by (simp add: mainAfterBackup_noCleanup afterBackupEvents_def)
next
  case True
  show ?thesis
  proof (cases "run_err (restic_Run w (Path (Restic cfg)) forgetArgs (envAfterSetup cfg w))")
    case None
    with True assms show ?thesis
      by (simp add: mainAfterBackup_forgetOk afterBackupEvents_def)
  next
    case (Some e)
    with True assms show ?thesis
      by (simp add: mainAfterBackup_forgetFail afterBackupEvents_def)
  qed
qed


lemma backupArgs_Cons: "backupArgs cfg w = ''backup'' # tl (backupArgs cfg w)"
  by (simp add: backupArgs_def)

lemma main_noEngine:
  assumes "lockAcquired w" and "exec_LookPath w (Path (Restic cfg)) = Some e"
  shows "main cfg w =
     (\<lparr>environ = os_Environ w,
       trace = [TryLock (lockPath cfg w), LookPath (Path (Restic cfg)),
                Log ErrorLevel ''cannot find the restic command''
                  [(''cmd'', FStr (Path (Restic cfg)))],
                Unlock (lockPath cfg w)]\<rparr>, Returned)"
  using assms
  by (simp add: main_lockAcquired mainLocked_def Let_def emit_def initial_def)

lemma main_powerError:
  assumes "lockAcquired w" and "engineFound cfg w" and "snd (powerReport w) = Some e"
  shows "main cfg w =
     (\<lparr>environ = os_Environ w,
       trace = [TryLock (lockPath cfg w), LookPath (Path (Restic cfg)), RunPmset,
                Log ErrorLevel ''cannot check if the system is running on AC power''
                  [(''err'', FErr e)],
                Unlock (lockPath cfg w)]\<rparr>, Returned)"
  using assms
  by (simp add: main_lockAcquired mainLocked_def Let_def emit_def initial_def engineFound_def
      isOnPower_eq case_prod_beta)

lemma main_powerSkip:
  assumes "lockAcquired w" and "engineFound cfg w" and "snd (powerReport w) = None"
    and "RequireAcPower cfg" and "\<not> fst (powerReport w)"
  shows "main cfg w =
     (\<lparr>environ = os_Environ w,
       trace = [TryLock (lockPath cfg w), LookPath (Path (Restic cfg)), RunPmset,
                Log WarnLevel ''The system is not running on AC power. Skipping backup.'' [],
                Unlock (lockPath cfg w)]\<rparr>, Returned)"
  using assms
  by (simp add: main_lockAcquired mainLocked_def Let_def emit_def initial_def engineFound_def
      isOnPower_eq case_prod_beta)

lemma main_setupReached:
  assumes "setupReached cfg w"
  shows "main cfg w =
     (case andThen (setupEnv cfg w
               \<lparr>environ = os_Environ w,
                trace = [TryLock (lockPath cfg w), LookPath (Path (Restic cfg)), RunPmset]\<rparr>)
            (\<lambda>_ st3.
               andThen (runResticCommand cfg w (backupArgs cfg w) st3) (\<lambda>err st4.
                 case err of
                   Some e \<Rightarrow>
                     (emit (Log ErrorLevel ''Backup failed''
                              [(''cmd'', FStr (Path (Restic cfg))),
                               (''command'', FStr ''backup'')]) st4,
                      Exit 1)
                 | None \<Rightarrow> mainAfterBackup cfg w st4)) of
        (st, Ok u) \<Rightarrow> (emit (Unlock (lockPath cfg w)) st, Returned)
      | (st, Exit n) \<Rightarrow> (st, Exited n)
      | (st, Panic) \<Rightarrow> (emit (Unlock (lockPath cfg w)) st, Panicked))"
proof -
  from assms have l: "lockAcquired w" and f: "exec_LookPath w (Path (Restic cfg)) = None"
    and p: "snd (powerReport w) = None" "\<not> (RequireAcPower cfg \<and> \<not> fst (powerReport w))"
    by (simp_all add: setupReached_def engineFound_def powerOk_def)
  have "mainLocked cfg w (emit (TryLock (lockPath cfg w)) (initial w)) =
      andThen (setupEnv cfg w
               \<lparr>environ = os_Environ w,
                trace = [TryLock (lockPath cfg w), LookPath (Path (Restic cfg)), RunPmset]\<rparr>)
            (\<lambda>_ st3.
               andThen (runResticCommand cfg w (backupArgs cfg w) st3) (\<lambda>err st4.
                 case err of
                   Some e \<Rightarrow>
                     (emit (Log ErrorLevel ''Backup failed''
                              [(''cmd'', FStr (Path (Restic cfg))),
                               (''command'', FStr ''backup'')]) st4,
                      Exit 1)
                 | None \<Rightarrow> mainAfterBackup cfg w st4))"
    using f p
    by (auto simp add: mainLocked_def Let_def isOnPower_eq case_prod_beta emit_def initial_def)
  with l show ?thesis
    by (simp add: main_lockAcquired)
qed

lemma main_secretFail:
  assumes "setupReached cfg w" and "failingAccount cfg w = Some a"
    and "snd (security_CombinedOutput w (SecurityService cfg) a) = Some e"
  shows "trace (fst (main cfg w)) =
       [TryLock (lockPath cfg w), LookPath (Path (Restic cfg)), RunPmset] @
       map (RunSecurity (SecurityService cfg)) (takeWhile (\<lambda>b. b \<noteq> a) accounts) @
       [RunSecurity (SecurityService cfg) a,
        Log FatalLevel ''cannot get security data''
          [(''cmd'', FStr ''security''), (''err'', FErr e), (''srv'', FStr (SecurityService cfg))]]
     \<and> snd (main cfg w) = Exited 1"
proof -
  let ?st = "\<lparr>environ = os_Environ w,
       trace = [TryLock (lockPath cfg w), LookPath (Path (Restic cfg)), RunPmset]\<rparr>"
  obtain st' where st': "setupEnv cfg w ?st = (st', Exit 1)"
    using setupEnv_fail [OF assms(2,3), of ?st] by (cases "setupEnv cfg w ?st") simp
  moreover have "trace st' = trace ?st @
       map (RunSecurity (SecurityService cfg)) (takeWhile (\<lambda>b. b \<noteq> a) accounts) @
       [RunSecurity (SecurityService cfg) a,
        Log FatalLevel ''cannot get security data''
          [(''cmd'', FStr ''security''), (''err'', FErr e), (''srv'', FStr (SecurityService cfg))]]"
    using setupEnv_fail [OF assms(2,3), of ?st] st' by simp
  ultimately show ?thesis
    by (simp add: main_setupReached [OF assms(1)])
qed

lemma main_backupFail:
  assumes "backupReached cfg w" and "run_err (backupResult cfg w) = Some e"
  shows "main cfg w =
     (\<lparr>environ = envAfterSetup cfg w,
       trace = setupTrace cfg w @
         RunRestic (Path (Restic cfg)) (backupArgs cfg w) (envAfterSetup cfg w) #
         lineEvents ErrorLevel (Path (Restic cfg)) ''backup'' (stderr (backupResult cfg w)) @
         [Log ErrorLevel ''failed to execute the command''
            [(''cmd'', FStr (Path (Restic cfg))), (''operation'', FStr ''backup''), (''err'', FErr e)],
          Log ErrorLevel ''Backup failed''
            [(''cmd'', FStr (Path (Restic cfg))), (''command'', FStr ''backup'')]]\<rparr>,
      Exited 1)"
proof -
  from assms(1) have r: "setupReached cfg w" and s: "secretsOk cfg w"
    by (simp_all add: backupReached_def)
  let ?st = "\<lparr>environ = os_Environ w,
       trace = [TryLock (lockPath cfg w), LookPath (Path (Restic cfg)), RunPmset]\<rparr>"
  let ?st3 = "\<lparr>environ = envAfterSetup cfg w, trace = setupTrace cfg w\<rparr>"
  have 1: "setupEnv cfg w ?st = (?st3, Ok ())"
    using s by (simp add: setupEnv_ok envAfterSetup_def initial_def setupTrace_def)
  have "run_err (restic_Run w (Path (Restic cfg)) (''backup'' # tl (backupArgs cfg w)) (environ ?st3)) = Some e"
    using assms(2) backupArgs_Cons [of cfg w] by (simp add: backupResult_def)
  from runResticCommand_failure [OF this]
  have 2: "runResticCommand cfg w (backupArgs cfg w) ?st3 =
     (\<lparr>environ = envAfterSetup cfg w,
       trace = setupTrace cfg w @
         RunRestic (Path (Restic cfg)) (backupArgs cfg w) (envAfterSetup cfg w) #
         lineEvents ErrorLevel (Path (Restic cfg)) ''backup'' (stderr (backupResult cfg w)) @
         [Log ErrorLevel ''failed to execute the command''
            [(''cmd'', FStr (Path (Restic cfg))), (''operation'', FStr ''backup''), (''err'', FErr e)]]\<rparr>,
      Ok (Some e))"
    using backupArgs_Cons [of cfg w] by (simp add: backupResult_def)
  show ?thesis
    by (simp add: main_setupReached [OF r] 1 2 emit_def)
qed

lemma main_backupOk:
  assumes "backupReached cfg w" and "run_err (backupResult cfg w) = None"
  shows "main cfg w =
     (\<lparr>environ = envAfterSetup cfg w,
       trace = setupTrace cfg w @
         RunRestic (Path (Restic cfg)) (backupArgs cfg w) (envAfterSetup cfg w) #
         lineEvents InfoLevel (Path (Restic cfg)) ''backup'' (stdout (backupResult cfg w)) @
         afterBackupEvents cfg w @ [Unlock (lockPath cfg w)]\<rparr>,
      Returned)"
proof -
  from assms(1) have r: "setupReached cfg w" and s: "secretsOk cfg w"
    by (simp_all add: backupReached_def)
  let ?st = "\<lparr>environ = os_Environ w,
       trace = [TryLock (lockPath cfg w), LookPath (Path (Restic cfg)), RunPmset]\<rparr>"
  let ?st3 = "\<lparr>environ = envAfterSetup cfg w, trace = setupTrace cfg w\<rparr>"
  have 1: "setupEnv cfg w ?st = (?st3, Ok ())"
    using s by (simp add: setupEnv_ok envAfterSetup_def initial_def setupTrace_def)
  have "run_err (restic_Run w (Path (Restic cfg)) (''backup'' # tl (backupArgs cfg w)) (environ ?st3)) = None"
    using assms(2) backupArgs_Cons [of cfg w] by (simp add: backupResult_def)
  from runResticCommand_success [OF this]
  have 2: "runResticCommand cfg w (backupArgs cfg w) ?st3 =
     (\<lparr>environ = envAfterSetup cfg w,
       trace = setupTrace cfg w @
         RunRestic (Path (Restic cfg)) (backupArgs cfg w) (envAfterSetup cfg w) #
         lineEvents InfoLevel (Path (Restic cfg)) ''backup'' (stdout (backupResult cfg w))\<rparr>,
      Ok None)"
    using backupArgs_Cons [of cfg w] by (simp add: backupResult_def)
  show ?thesis
    by (simp add: main_setupReached [OF r] 1 2 emit_def mainAfterBackup_eq)
qed

subsection \<open>What the pieces of a trace hold\<close>

lemmas string_eval = TrimSpace_def TrimLeft_def TrimRight_def trimLeading.simps leadingWidth_def
  spaceRunes_def Contains_def

lemma lineEvents_not [simp]:
  "\<not> list_ex isRunRestic (lineEvents lvl path operation s)"
  "\<not> list_ex isMetrics (lineEvents lvl path operation s)"
  "\<not> list_ex isUnlock (lineEvents lvl path operation s)"
  "\<not> list_ex isRunSecurity (lineEvents lvl path operation s)"
  "\<not> list_ex (isOperation x) (lineEvents lvl path operation s)"
  by (simp_all add: lineEvents_def list_ex_iff)

lemma setupTrace_not [simp]:
  "\<not> list_ex isRunRestic (setupTrace cfg w)"
  "\<not> list_ex isMetrics (setupTrace cfg w)"
  "\<not> list_ex isUnlock (setupTrace cfg w)"
  "\<not> list_ex (isOperation x) (setupTrace cfg w)"
  by (simp_all add: setupTrace_def list_ex_iff accounts_def)

lemma count_map_Log:
  "count_list (map (\<lambda>line. Log lvl line fs) xs) (Log lvl line fs) = count_list xs line"
  by (induction xs) simp_all

lemma count_lineEvents:
  "count_list (lineEvents lvl path operation s)
     (Log lvl line [(''cmd'', FStr path), (''operation'', FStr operation)]) =
   count_list (nonEmptyLines s) line"
  by (simp add: lineEvents_def count_map_Log)

lemma count_setupTrace_Log: "count_list (setupTrace cfg w) (Log lvl msg fs) = 0"
  by (simp add: setupTrace_def accounts_def)

lemma reportEvents_not [simp]:
  "\<not> list_ex isRunRestic (reportEvents cfg w)"
  "\<not> list_ex isUnlock (reportEvents cfg w)"
  "\<not> list_ex (isOperation x) (reportEvents cfg w)"
  by (simp_all add: mainReport_def reportEvents_def sendAwsMetrics_def Let_def emit_def
      split: option.splits)

lemma afterBackupEvents_cases:
  obtains (noCleanup) "\<not> CleanupOldBackups cfg" "afterBackupEvents cfg w = reportEvents cfg w"
  | (forgetOk) "CleanupOldBackups cfg" "run_err (forgetResult cfg w) = None"
      "afterBackupEvents cfg w =
         RunRestic (Path (Restic cfg)) forgetArgs (envAfterSetup cfg w) #
         lineEvents InfoLevel (Path (Restic cfg)) ''forget'' (stdout (forgetResult cfg w)) @
         reportEvents cfg w"
  | (forgetFail) e where "CleanupOldBackups cfg" "run_err (forgetResult cfg w) = Some e"
      "afterBackupEvents cfg w =
         RunRestic (Path (Restic cfg)) forgetArgs (envAfterSetup cfg w) #
         lineEvents ErrorLevel (Path (Restic cfg)) ''forget'' (stderr (forgetResult cfg w)) @
         [Log ErrorLevel ''failed to execute the command''
            [(''cmd'', FStr (Path (Restic cfg))), (''operation'', FStr ''forget''), (''err'', FErr e)],
          Log ErrorLevel ''Forget failed''
            [(''cmd'', FStr (Path (Restic cfg))), (''command'', FStr ''forget'')]] @
         reportEvents cfg w"
proof (cases "CleanupOldBackups cfg")
  case False
  then have "afterBackupEvents cfg w = reportEvents cfg w"
    by (simp add: afterBackupEvents_def mainAfterBackup_noCleanup)
  with False show ?thesis by (rule noCleanup)
next
  case True
  show ?thesis
  proof (cases "run_err (forgetResult cfg w)")
    case None
    with True have "afterBackupEvents cfg w =
         RunRestic (Path (Restic cfg)) forgetArgs (envAfterSetup cfg w) #
         lineEvents InfoLevel (Path (Restic cfg)) ''forget'' (stdout (forgetResult cfg w)) @
         reportEvents cfg w"
      by (simp add: afterBackupEvents_def mainAfterBackup_forgetOk forgetResult_def)
    with True None show ?thesis by (rule forgetOk)
  next
    case (Some e)
    with True have "afterBackupEvents cfg w =
         RunRestic (Path (Restic cfg)) forgetArgs (envAfterSetup cfg w) #
         lineEvents ErrorLevel (Path (Restic cfg)) ''forget'' (stderr (forgetResult cfg w)) @
         [Log ErrorLevel ''failed to execute the command''
            [(''cmd'', FStr (Path (Restic cfg))), (''operation'', FStr ''forget''), (''err'', FErr e)],
          Log ErrorLevel ''Forget failed''
            [(''cmd'', FStr (Path (Restic cfg))), (''command'', FStr ''forget'')]] @
         reportEvents cfg w"
      by (simp add: afterBackupEvents_def mainAfterBackup_forgetFail forgetResult_def)
    with True Some show ?thesis by (rule forgetFail)
  qed
qed

lemma afterBackupEvents_not_Unlock [simp]: "\<not> list_ex isUnlock (afterBackupEvents cfg w)"
  by (cases cfg w rule: afterBackupEvents_cases) simp_all

text \<open>The eight ways through \<^verbatim>\<open>main\<close>; every run takes exactly one of them.\<close>

lemma main_cases:
  obtains
    (lockError) e where "snd (flock_TryLock w) = Some e"
      "main cfg w =
         (\<lparr>environ = os_Environ w,
           trace = [TryLock (lockPath cfg w),
                    Log ErrorLevel ''cannot lock the lock file'' [(''err'', FErr e)]]\<rparr>, Exited 1)"
  | (lockBusy) "lockBusy w"
      "main cfg w =
         (\<lparr>environ = os_Environ w,
           trace = [TryLock (lockPath cfg w),
                    Log WarnLevel ''Another instance of the program is already running. Exiting.'' []]\<rparr>,
          Returned)"
  | (noEngine) e where "lockAcquired w" "exec_LookPath w (Path (Restic cfg)) = Some e"
      "main cfg w =
         (\<lparr>environ = os_Environ w,
           trace = [TryLock (lockPath cfg w), LookPath (Path (Restic cfg)),
                    Log ErrorLevel ''cannot find the restic command''
                      [(''cmd'', FStr (Path (Restic cfg)))],
                    Unlock (lockPath cfg w)]\<rparr>, Returned)"
  | (powerError) e where "lockAcquired w" "engineFound cfg w" "snd (powerReport w) = Some e"
      "main cfg w =
         (\<lparr>environ = os_Environ w,
           trace = [TryLock (lockPath cfg w), LookPath (Path (Restic cfg)), RunPmset,
                    Log ErrorLevel ''cannot check if the system is running on AC power''
                      [(''err'', FErr e)],
                    Unlock (lockPath cfg w)]\<rparr>, Returned)"
  | (powerSkip) "lockAcquired w" "engineFound cfg w" "snd (powerReport w) = None"
      "RequireAcPower cfg" "\<not> fst (powerReport w)"
      "main cfg w =
         (\<lparr>environ = os_Environ w,
           trace = [TryLock (lockPath cfg w), LookPath (Path (Restic cfg)), RunPmset,
                    Log WarnLevel ''The system is not running on AC power. Skipping backup.'' [],
                    Unlock (lockPath cfg w)]\<rparr>, Returned)"
  | (secretFail) a e where "setupReached cfg w" "failingAccount cfg w = Some a"
      "snd (security_CombinedOutput w (SecurityService cfg) a) = Some e"
      "trace (fst (main cfg w)) =
         [TryLock (lockPath cfg w), LookPath (Path (Restic cfg)), RunPmset] @
         map (RunSecurity (SecurityService cfg)) (takeWhile (\<lambda>b. b \<noteq> a) accounts) @
         [RunSecurity (SecurityService cfg) a,
          Log FatalLevel ''cannot get security data''
            [(''cmd'', FStr ''security''), (''err'', FErr e), (''srv'', FStr (SecurityService cfg))]]"
      "snd (main cfg w) = Exited 1"
  | (backupFail) e where "backupReached cfg w" "run_err (backupResult cfg w) = Some e"
      "main cfg w =
         (\<lparr>environ = envAfterSetup cfg w,
           trace = setupTrace cfg w @
             RunRestic (Path (Restic cfg)) (backupArgs cfg w) (envAfterSetup cfg w) #
             lineEvents ErrorLevel (Path (Restic cfg)) ''backup'' (stderr (backupResult cfg w)) @
             [Log ErrorLevel ''failed to execute the command''
                [(''cmd'', FStr (Path (Restic cfg))), (''operation'', FStr ''backup''), (''err'', FErr e)],
              Log ErrorLevel ''Backup failed''
                [(''cmd'', FStr (Path (Restic cfg))), (''command'', FStr ''backup'')]]\<rparr>,
          Exited 1)"
  | (backupOk) "backupReached cfg w" "run_err (backupResult cfg w) = None"
      "main cfg w =
         (\<lparr>environ = envAfterSetup cfg w,
           trace = setupTrace cfg w @
             RunRestic (Path (Restic cfg)) (backupArgs cfg w) (envAfterSetup cfg w) #
             lineEvents InfoLevel (Path (Restic cfg)) ''backup'' (stdout (backupResult cfg w)) @
             afterBackupEvents cfg w @ [Unlock (lockPath cfg w)]\<rparr>,
          Returned)"
proof (cases "snd (flock_TryLock w)")
  case (Some e)
  from Some main_lockError [OF Some] show ?thesis by (rule lockError)
next
  case None
  show ?thesis
  proof (cases "fst (flock_TryLock w)")
    case False
    with None have b: "lockBusy w" by (simp add: lockBusy_def)
    from b main_lockBusy [OF b] show ?thesis by (rule lockBusy)
  next
    case True
    with None have l: "lockAcquired w" by (simp add: lockAcquired_def)
    show ?thesis
    proof (cases "exec_LookPath w (Path (Restic cfg))")
      case (Some e)
      from l Some main_noEngine [OF l Some] show ?thesis by (rule noEngine)
    next
      case None
      then have f: "engineFound cfg w" by (simp add: engineFound_def)
      show ?thesis
      proof (cases "snd (powerReport w)")
        case (Some e)
        from l f Some main_powerError [OF l f Some] show ?thesis by (rule powerError)
      next
        case None
        show ?thesis
        proof (cases "RequireAcPower cfg \<and> \<not> fst (powerReport w)")
          case True
          then have r: "RequireAcPower cfg" and n: "\<not> fst (powerReport w)" by simp_all
          from l f None r n main_powerSkip [OF l f None r n] show ?thesis by (rule powerSkip)
        next
          case False
          with l f None have s: "setupReached cfg w"
            by (simp add: setupReached_def powerOk_def)
          show ?thesis
          proof (cases "failingAccount cfg w")
            case (Some a)
            then obtain e where e: "snd (security_CombinedOutput w (SecurityService cfg) a) = Some e"
              by (auto simp add: failingAccount_def find_Some_iff)
            from main_secretFail [OF s Some e]
            have "trace (fst (main cfg w)) =
               [TryLock (lockPath cfg w), LookPath (Path (Restic cfg)), RunPmset] @
               map (RunSecurity (SecurityService cfg)) (takeWhile (\<lambda>b. b \<noteq> a) accounts) @
               [RunSecurity (SecurityService cfg) a,
                Log FatalLevel ''cannot get security data''
                  [(''cmd'', FStr ''security''), (''err'', FErr e),
                   (''srv'', FStr (SecurityService cfg))]]"
              and "snd (main cfg w) = Exited 1"
              by simp_all
            with s Some e show ?thesis by (rule secretFail)
          next
            case None
            with s have b: "backupReached cfg w"
              by (simp add: backupReached_def failingAccount_None)
            show ?thesis
            proof (cases "run_err (backupResult cfg w)")
              case (Some e)
              from b Some main_backupFail [OF b Some] show ?thesis by (rule backupFail)
            next
              case None
              from b None main_backupOk [OF b None] show ?thesis by (rule backupOk)
            qed
          qed
        qed
      qed
    qed
  qed
qed

subsection \<open>The example runs\<close>

lemma exampleWorld_power: "powerReport exampleWorld = (True, None)"
  by (simp add: powerReport_def isOnPower_def exampleWorld_def Let_def string_eval)

lemma batteryWorld_power: "powerReport batteryWorld = (False, None)"
  by (simp add: powerReport_def isOnPower_def batteryWorld_def exampleWorld_def Let_def string_eval)

lemma powerReport_update [simp]:
  "powerReport (w\<lparr>restic_Run := r\<rparr>) = powerReport w"
  "powerReport (w\<lparr>security_CombinedOutput := s\<rparr>) = powerReport w"
  "powerReport (w\<lparr>exec_LookPath := l\<rparr>) = powerReport w"
  by (simp_all add: powerReport_def isOnPower_def Let_def initial_def emit_def case_prod_beta)

lemma exampleWorld_setupReached: "setupReached exampleConfig exampleWorld"
  by (simp add: setupReached_def lockAcquired_def engineFound_def powerOk_def exampleWorld_power)
     (simp add: exampleWorld_def)

lemma exampleWorld_reached: "backupReached exampleConfig exampleWorld"
  by (simp add: backupReached_def exampleWorld_setupReached secretsOk_def accounts_def)
     (simp add: exampleWorld_def)

lemma backupFailWorld_reached: "backupReached exampleConfig backupFailWorld"
  using exampleWorld_reached
  by (simp add: backupReached_def setupReached_def lockAcquired_def engineFound_def powerOk_def
      secretsOk_def backupFailWorld_def)

lemma forgetFailWorld_reached: "backupReached exampleConfig forgetFailWorld"
  using exampleWorld_reached
  by (simp add: backupReached_def setupReached_def lockAcquired_def engineFound_def powerOk_def
      secretsOk_def forgetFailWorld_def)

lemma secretTimeoutWorld_setupReached: "setupReached exampleConfig secretTimeoutWorld"
  using exampleWorld_setupReached
  by (simp add: setupReached_def lockAcquired_def engineFound_def powerOk_def
      secretTimeoutWorld_def)


lemma backupFailWorld_result:
  "run_err (backupResult exampleConfig backupFailWorld) = Some ''exit status 2''"
  "nonEmptyLines (stderr (backupResult exampleConfig backupFailWorld)) = [''repository locked'']"
  by (simp_all add: backupResult_def backupFailWorld_def nonEmptyLines_def string_eval)

lemma forgetFailWorld_result:
  "run_err (backupResult exampleConfig forgetFailWorld) = None"
  "run_err (forgetResult exampleConfig forgetFailWorld) = Some ''exit status 1''"
  by (simp_all add: backupResult_def forgetResult_def forgetFailWorld_def backupArgs_def
      forgetArgs_def)

lemma secretTimeoutWorld_failing:
  "failingAccount exampleConfig secretTimeoutWorld = Some ''repository''"
  "snd (security_CombinedOutput secretTimeoutWorld (SecurityService exampleConfig) ''repository'')
     = Some ''signal: killed''"
  by (simp_all add: failingAccount_def accounts_def secretTimeoutWorld_def)

subsection \<open>The engine invocations of a run\<close>

lemma logLines_Nil_args:
  "logLines lvl path [] ls st =
     (st, if filter (\<lambda>line. line \<noteq> []) ls = [] then Ok () else Panic)"
  by (induction ls arbitrary: st) simp_all

lemma runResticCommand_Nil:
  "runResticCommand cfg w [] st =
     (emit (RunRestic (Path (Restic cfg)) [] (environ st)) st,
      if run_err (restic_Run w (Path (Restic cfg)) [] (environ st)) = None
         \<and> nonEmptyLines (stdout (restic_Run w (Path (Restic cfg)) [] (environ st))) = []
      then Ok None else Panic)"
  by (simp add: runResticCommand_def Let_def logLines_Nil_args nonEmptyLines_def emit_def
      split: option.splits)

lemma runResticCommand_Cons_snd:
  "snd (runResticCommand cfg w (operation # as) st) =
     Ok (run_err (restic_Run w (Path (Restic cfg)) (operation # as) (environ st)))"
  by (cases "run_err (restic_Run w (Path (Restic cfg)) (operation # as) (environ st))")
     (simp_all add: runResticCommand_success runResticCommand_failure)



lemma warningWorld_result:
  "restic_Run warningWorld path args e =
     \<lparr>stdout = ''snapshot 1a2b saved\<newline>'',
      stderr = ''warning: file changed\<newline>'',
      run_err = None\<rparr>"
  by (simp add: warningWorld_def)

lemma backupFailWorld_run:
  "restic_Run backupFailWorld path args e =
     \<lparr>stdout = ''scanning\<newline>'',
      stderr = ''repository locked\<newline>'',
      run_err = Some ''exit status 2''\<rparr>"
  by (simp add: backupFailWorld_def)

lemma example_lines:
  "nonEmptyLines ''snapshot 1a2b saved\<newline>'' = [''snapshot 1a2b saved'']"
  "nonEmptyLines ''warning: file changed\<newline>'' = [''warning: file changed'']"
  "nonEmptyLines ''repository locked\<newline>'' = [''repository locked'']"
  by (simp_all add: nonEmptyLines_def string_eval)





lemma afterBackupEvents_RunRestic:
  assumes "ev \<in> set (afterBackupEvents cfg w)" and "isRunRestic ev"
  shows "ev = RunRestic (Path (Restic cfg)) forgetArgs (envAfterSetup cfg w)"
proof -
  have r: "ev \<notin> set (reportEvents cfg w)"
    using reportEvents_not(1) [of cfg w] assms(2) by (auto simp add: list_ex_iff)
  have l: "ev \<notin> set (lineEvents lvl (Path (Restic cfg)) ''forget'' s)" for lvl s
    using lineEvents_not(1) [of lvl "Path (Restic cfg)" "''forget''" s] assms(2)
    by (auto simp add: list_ex_iff)
  show ?thesis
  proof (cases cfg w rule: afterBackupEvents_cases)
    case noCleanup
    with assms(1) r show ?thesis by simp
  next
    case forgetOk
    with assms r l show ?thesis by auto
  next
    case (forgetFail e)
    with assms r l show ?thesis by auto
  qed
qed

lemma main_RunRestic:
  assumes "ev \<in> set (trace (fst (main cfg w)))" and "isRunRestic ev"
  shows "backupReached cfg w \<and>
     (ev = RunRestic (Path (Restic cfg)) (backupArgs cfg w) (envAfterSetup cfg w) \<or>
      ev = RunRestic (Path (Restic cfg)) forgetArgs (envAfterSetup cfg w))"
proof (cases cfg w rule: main_cases)
  case (lockError e)
  with assms show ?thesis by auto
next
  case lockBusy
  with assms show ?thesis by auto
next
  case (noEngine e)
  with assms show ?thesis by auto
next
  case (powerError e)
  with assms show ?thesis by auto
next
  case powerSkip
  with assms show ?thesis by auto
next
  case (secretFail a e)
  with assms show ?thesis by auto
next
  case (backupFail e)
  have l: "ev \<notin> set (lineEvents lvl (Path (Restic cfg)) ''backup'' s)" for lvl s
    using lineEvents_not(1) [of lvl "Path (Restic cfg)" "''backup''" s] assms(2)
    by (auto simp add: list_ex_iff)
  have s: "ev \<notin> set (setupTrace cfg w)"
    using setupTrace_not(1) [of cfg w] assms(2) by (auto simp add: list_ex_iff)
  from backupFail assms l s show ?thesis by auto
next
  case backupOk
  have l: "ev \<notin> set (lineEvents lvl (Path (Restic cfg)) ''backup'' s)" for lvl s
    using lineEvents_not(1) [of lvl "Path (Restic cfg)" "''backup''" s] assms(2)
    by (auto simp add: list_ex_iff)
  have s: "ev \<notin> set (setupTrace cfg w)"
    using setupTrace_not(1) [of cfg w] assms(2) by (auto simp add: list_ex_iff)
  from backupOk(3) assms(1) l s
  have "ev = RunRestic (Path (Restic cfg)) (backupArgs cfg w) (envAfterSetup cfg w)
      \<or> ev \<in> set (afterBackupEvents cfg w) \<or> ev = Unlock (lockPath cfg w)"
    by auto
  with assms(2) afterBackupEvents_RunRestic [of ev cfg w] backupOk(1) show ?thesis by auto
qed

lemma main_not_Panicked: "snd (main cfg w) \<noteq> Panicked"
  by (cases cfg w rule: main_cases) simp_all

lemma exampleWorld_result:
  "run_err (backupResult exampleConfig exampleWorld) = None"
  "run_err (backupResult exampleConfig emptySecretWorld) = None"
  by (simp_all add: backupResult_def exampleWorld_def emptySecretWorld_def)




subsection \<open>The release of the lock\<close>

text \<open>
  Once the lock is acquired, \<open>Unlock\<close> happens exactly once when \<^verbatim>\<open>main\<close> returns and not
  at all when the process ends through \<^verbatim>\<open>os.Exit\<close>.
\<close>

lemma filter_isUnlock_empty [simp]:
  "filter isUnlock (setupTrace cfg w) = []"
  "filter isUnlock (lineEvents lvl path operation s) = []"
  "filter isUnlock (afterBackupEvents cfg w) = []"
  using setupTrace_not(3) [of cfg w] lineEvents_not(3) [of lvl path operation s]
    afterBackupEvents_not_Unlock [of cfg w]
  by (simp_all add: list_ex_iff filter_empty_conv)

lemma main_unlock_count:
  assumes "lockAcquired w"
  shows "filter isUnlock (trace (fst (main cfg w))) =
     (if snd (main cfg w) = Returned then [Unlock (lockPath cfg w)] else [])"
proof (cases cfg w rule: main_cases)
  case (lockError e)
  with assms show ?thesis by (simp add: lockAcquired_def)
next
  case lockBusy
  with assms show ?thesis by (simp add: lockAcquired_def lockBusy_def)
next
  case (noEngine e)
  then show ?thesis by simp
next
  case (powerError e)
  then show ?thesis by simp
next
  case powerSkip
  then show ?thesis by simp
next
  case (secretFail a e)
  then show ?thesis by (auto simp add: filter_empty_conv dest: set_takeWhileD)
next
  case (backupFail e)
  then show ?thesis by simp
next
  case backupOk
  then show ?thesis by simp
qed

subsection \<open>Trimming and splitting\<close>

text \<open>
  \<^const>\<open>Split\<close> and \<^const>\<open>TrimSpace\<close> against what the specification means by lines and by
  trimming.
\<close>

lemma Split_not_Nil [simp]: "Split s sep \<noteq> []"
  by (induction s) (simp_all split: list.splits)

lemma Join_Cons_nonempty: "ys \<noteq> [] \<Longrightarrow> Join (x # ys) sep = x @ sep # Join ys sep"
  by (cases ys) simp_all

lemma Join_Split: "Join (Split s sep) sep = s"
proof (induction s)
  case Nil
  show ?case by simp
next
  case (Cons c cs)
  obtain l ls where sp: "Split cs sep = l # ls" by (cases "Split cs sep") simp_all
  show ?case
  proof (cases "c = sep")
    case True
    with Cons show ?thesis by (simp add: Join_Cons_nonempty)
  next
    case False
    with Cons sp show ?thesis by (cases ls) simp_all
  qed
qed

lemma Split_no_sep: "l \<in> set (Split s sep) \<Longrightarrow> sep \<notin> set l"
proof (induction s arbitrary: l)
  case Nil
  then show ?case by simp
next
  case (Cons c cs)
  obtain x xs where sp: "Split cs sep = x # xs" by (cases "Split cs sep") simp_all
  from Cons.IH [of x] sp have x: "sep \<notin> set x" by simp
  from Cons.IH sp have xs: "\<And>y. y \<in> set xs \<Longrightarrow> sep \<notin> set y" by simp
  from Cons.prems sp x xs show ?case by (auto split: if_splits)
qed

lemma specLines_Split: "specLines t (Split t (CHR 0x0A))"
  by (simp add: specLines_def Join_Split Split_no_sep)

lemma trimLeading_decomp:
  "\<exists>ls. set ls \<subseteq> set ps \<and> s = concat ls @ trimLeading ps s"
proof (induction ps s rule: trimLeading.induct)
  case (1 ps s)
  show ?case
  proof (cases "leadingWidth ps s = 0")
    case True
    then have "trimLeading ps s = s" by (simp add: trimLeading.simps)
    then have "set [] \<subseteq> set ps \<and> s = concat [] @ trimLeading ps s" by simp
    then show ?thesis by blast
  next
    case False
    then obtain p where p: "find (\<lambda>p. p \<noteq> [] \<and> prefix p s) ps = Some p"
      by (auto simp add: leadingWidth_def split: option.splits)
    then have pin: "p \<in> set ps" and pre: "prefix p s"
      by (auto simp add: find_Some_iff)
    from p have w: "leadingWidth ps s = length p" by (simp add: leadingWidth_def)
    from pre have s: "s = p @ drop (length p) s" by (auto simp add: prefix_def)
    from "1.IH" [OF False] obtain ls where ls: "set ls \<subseteq> set ps"
      and d: "drop (leadingWidth ps s) s = concat ls @ trimLeading ps (drop (leadingWidth ps s) s)"
      by blast
    from False have t: "trimLeading ps s = trimLeading ps (drop (leadingWidth ps s) s)"
      by (simp add: trimLeading.simps)
    have "s = concat (p # ls) @ trimLeading ps s"
      using s d t w by (metis append.assoc concat.simps(2))
    moreover have "set (p # ls) \<subseteq> set ps" using pin ls by simp
    ultimately show ?thesis by blast
  qed
qed

lemma trimLeading_no_prefix:
  "p \<in> set ps \<Longrightarrow> p \<noteq> [] \<Longrightarrow> \<not> prefix p (trimLeading ps s)"
proof (induction ps s rule: trimLeading.induct)
  case (1 ps s)
  show ?case
  proof (cases "leadingWidth ps s = 0")
    case True
    then have t: "trimLeading ps s = s" by (simp add: trimLeading.simps)
    have "find (\<lambda>p. p \<noteq> [] \<and> prefix p s) ps = None"
    proof (cases "find (\<lambda>p. p \<noteq> [] \<and> prefix p s) ps")
      case None
      then show ?thesis .
    next
      case (Some q)
      then have "q \<noteq> []" by (auto simp add: find_Some_iff)
      with Some True show ?thesis by (simp add: leadingWidth_def)
    qed
    with "1.prems" have "\<not> prefix p s" by (auto simp add: find_None_iff)
    with t show ?thesis by simp
  next
    case False
    then have "trimLeading ps s = trimLeading ps (drop (leadingWidth ps s) s)"
      by (simp add: trimLeading.simps)
    with "1.IH" [OF False "1.prems"] show ?thesis by simp
  qed
qed

lemma spaceRunes_nonempty: "p \<in> set spaceRunes \<Longrightarrow> p \<noteq> []"
  by (auto simp add: spaceRunes_def)

lemma specTrimmed_TrimSpace: "specTrimmed b (TrimSpace b)"
proof -
  let ?t = "TrimLeft b"
  let ?u = "trimLeading (map rev spaceRunes) (rev ?t)"
  obtain ls where ls: "set ls \<subseteq> set spaceRunes" and b: "b = concat ls @ ?t"
    using trimLeading_decomp [of spaceRunes b] by (auto simp add: TrimLeft_def)
  obtain rs' where rs': "set rs' \<subseteq> set (map rev spaceRunes)" and r: "rev ?t = concat rs' @ ?u"
    using trimLeading_decomp [of "map rev spaceRunes" "rev ?t"] by blast
  have ts: "TrimSpace b = rev ?u" by (simp add: TrimSpace_def TrimRight_def)
  from r have "?t = rev (concat rs' @ ?u)" by (metis rev_rev_ident)
  then have t: "?t = rev ?u @ concat (map rev (rev rs'))" by (simp add: rev_concat)
  have rs: "set (map rev (rev rs')) \<subseteq> set spaceRunes"
    using rs' by (auto simp add: image_iff)
  have dec: "b = concat ls @ TrimSpace b @ concat (map rev (rev rs'))"
    using b t ts by simp
  have ends: "\<not> prefix p (TrimSpace b) \<and> \<not> suffix p (TrimSpace b)" if p: "p \<in> set spaceRunes" for p
  proof
    from p have ne: "p \<noteq> []" by (rule spaceRunes_nonempty)
    have "\<not> prefix p ?t"
      using trimLeading_no_prefix [OF p ne, of b] by (simp add: TrimLeft_def)
    moreover have "prefix (TrimSpace b) ?t" using t ts by (metis prefixI)
    ultimately show "\<not> prefix p (TrimSpace b)" using prefix_order.trans by blast
    from p have "rev p \<in> set (map rev spaceRunes)" by simp
    from trimLeading_no_prefix [OF this, of "rev ?t"] ne have "\<not> prefix (rev p) ?u" by simp
    then show "\<not> suffix p (TrimSpace b)" by (simp add: ts suffix_to_prefix)
  qed
  from ls rs dec ends show ?thesis unfolding specTrimmed_def by blast
qed

lemma noisyFailWorld_reached: "backupReached exampleConfig noisyFailWorld"
  using exampleWorld_reached
  by (simp add: backupReached_def setupReached_def lockAcquired_def engineFound_def powerOk_def
      secretsOk_def noisyFailWorld_def)

lemma noisyFailWorld_run:
  "run_err (restic_Run noisyFailWorld path args e) = Some ''exit status 1''"
  "filter (\<lambda>line. line \<noteq> []) (Split (TrimSpace (stderr (restic_Run noisyFailWorld path args e)))
      (CHR 0x0A)) = [''repository locked'', '' '', ''unable to create lock'']"
  by (simp_all add: noisyFailWorld_def string_eval)

lemma noisyFailWorld_stderr:
  "stderr (restic_Run noisyFailWorld path args e) =
     [CHR 0x20, CHR 0x0A] @ ''repository locked'' @ [CHR 0x0A, CHR 0x20, CHR 0x0A]
     @ ''unable to create lock'' @ [CHR 0x0A] @ [CHR 0x09] @ [CHR 0x0A]"
  by (simp add: noisyFailWorld_def)

lemma noisyOkWorld_run:
  "run_err (restic_Run noisyOkWorld path args e) = None"
  "filter (\<lambda>line. line \<noteq> []) (Split (TrimSpace (stdout (restic_Run noisyOkWorld path args e)))
      (CHR 0x0A)) = [''snapshot 1a2b saved'', ''processed 3 files'']"
  "Split (TrimSpace (stdout (restic_Run noisyOkWorld path args e))) (CHR 0x0A) =
     [''snapshot 1a2b saved'', [], ''processed 3 files'']"
  by (simp_all add: noisyOkWorld_def string_eval)

lemma filter_isLog_setupTrace [simp]: "filter isLog (setupTrace cfg w) = []"
  by (simp add: setupTrace_def accounts_def)

lemma list_ex_isLogOf_setupTrace [simp]: "\<not> list_ex (isLogOf m) (setupTrace cfg w)"
  by (simp add: setupTrace_def accounts_def)




section \<open>The properties of the specification\<close>

text \<open>
  C1. The claim asks for exactly one release of an acquired lock on every exit path. The
  release is the deferred \<^verbatim>\<open>fileLock.Unlock()\<close>, and \<^verbatim>\<open>os.Exit\<close> runs no deferred call: in
  the two runs below the lock is acquired, the process ends through \<^verbatim>\<open>os.Exit(1)\<close> (after a
  failed backup command, and after a failed secret fetch through \<^verbatim>\<open>log.Fatal\<close>), and the
  trace holds no \<open>Unlock\<close>.
\<close>

theorem C1_unlock_skipped_on_exit:
  "lockAcquired backupFailWorld
   \<and> snd (main exampleConfig backupFailWorld) = Exited 1
   \<and> filter isUnlock (trace (fst (main exampleConfig backupFailWorld))) = []
   \<and> lockAcquired secretTimeoutWorld
   \<and> snd (main exampleConfig secretTimeoutWorld) = Exited 1
   \<and> filter isUnlock (trace (fst (main exampleConfig secretTimeoutWorld))) = []"
proof -
  have 1: "lockAcquired backupFailWorld" "lockAcquired secretTimeoutWorld"
    using backupFailWorld_reached secretTimeoutWorld_setupReached
    by (simp_all add: backupReached_def setupReached_def)
  note b = main_backupFail [OF backupFailWorld_reached backupFailWorld_result(1)]
  note s = main_secretFail [OF secretTimeoutWorld_setupReached secretTimeoutWorld_failing]
  have 2: "filter isUnlock (trace (fst (main exampleConfig backupFailWorld))) = []"
    by (simp add: b filter_empty_conv setupTrace_def accounts_def lineEvents_def)
  have 3: "filter isUnlock (trace (fst (main exampleConfig secretTimeoutWorld))) = []"
    by (simp add: s accounts_def)
  from 1 2 3 b s show ?thesis by simp
qed

text \<open>
  C2, as the code has it. \<^verbatim>\<open>runResticCommand\<close>, called with an operation, logs the lines of
  one buffer only, chosen by the result of \<^verbatim>\<open>cmd.Run()\<close>, and it takes the lines after
  \<^verbatim>\<open>strings.TrimSpace\<close> has cut the white space off both ends of the whole buffer. When
  the command fails, each non-empty line of the trimmed standard error becomes one error
  entry, in order, followed by one error entry that carries the error, and nothing of the
  standard output is logged. When the command succeeds, each non-empty line of the trimmed
  standard output becomes one info entry, in order, and nothing of the standard error is
  logged. Either way a line is logged once for each time it occurs. The last four
  conjuncts say what the trimmed buffer and its lines are, in the words of the
  specification.
\<close>

theorem C2_line_logging:
  assumes "restic_Run w (Path (Restic cfg)) (operation # as) (environ st) = res"
  shows "(run_err res = Some e \<longrightarrow>
       runResticCommand cfg w (operation # as) st =
         (st\<lparr>trace := trace st @
              RunRestic (Path (Restic cfg)) (operation # as) (environ st) #
              map (\<lambda>line. Log ErrorLevel line
                     [(''cmd'', FStr (Path (Restic cfg))), (''operation'', FStr operation)])
                (filter (\<lambda>line. line \<noteq> []) (Split (TrimSpace (stderr res)) (CHR 0x0A))) @
              [Log ErrorLevel ''failed to execute the command''
                 [(''cmd'', FStr (Path (Restic cfg))), (''operation'', FStr operation),
                  (''err'', FErr e)]]\<rparr>,
          Ok (Some e))
       \<and> (\<forall>line.
            count_list (trace (fst (runResticCommand cfg w (operation # as) st)))
              (Log ErrorLevel line
                 [(''cmd'', FStr (Path (Restic cfg))), (''operation'', FStr operation)]) =
            count_list (trace st)
              (Log ErrorLevel line
                 [(''cmd'', FStr (Path (Restic cfg))), (''operation'', FStr operation)]) +
            count_list (filter (\<lambda>line. line \<noteq> []) (Split (TrimSpace (stderr res)) (CHR 0x0A)))
              line))
    \<and> (run_err res = None \<longrightarrow>
       runResticCommand cfg w (operation # as) st =
         (st\<lparr>trace := trace st @
              RunRestic (Path (Restic cfg)) (operation # as) (environ st) #
              map (\<lambda>line. Log InfoLevel line
                     [(''cmd'', FStr (Path (Restic cfg))), (''operation'', FStr operation)])
                (filter (\<lambda>line. line \<noteq> []) (Split (TrimSpace (stdout res)) (CHR 0x0A)))\<rparr>,
          Ok None)
       \<and> (\<forall>line.
            count_list (trace (fst (runResticCommand cfg w (operation # as) st)))
              (Log InfoLevel line
                 [(''cmd'', FStr (Path (Restic cfg))), (''operation'', FStr operation)]) =
            count_list (trace st)
              (Log InfoLevel line
                 [(''cmd'', FStr (Path (Restic cfg))), (''operation'', FStr operation)]) +
            count_list (filter (\<lambda>line. line \<noteq> []) (Split (TrimSpace (stdout res)) (CHR 0x0A)))
              line))
    \<and> specTrimmed (stderr res) (TrimSpace (stderr res))
    \<and> specLines (TrimSpace (stderr res)) (Split (TrimSpace (stderr res)) (CHR 0x0A))
    \<and> specTrimmed (stdout res) (TrimSpace (stdout res))
    \<and> specLines (TrimSpace (stdout res)) (Split (TrimSpace (stdout res)) (CHR 0x0A))"
proof (intro conjI impI allI)
  assume e: "run_err res = Some e"
  with assms have "run_err (restic_Run w (Path (Restic cfg)) (operation # as) (environ st)) = Some e"
    by simp
  note f = runResticCommand_failure [OF this]
  show "runResticCommand cfg w (operation # as) st =
         (st\<lparr>trace := trace st @
              RunRestic (Path (Restic cfg)) (operation # as) (environ st) #
              map (\<lambda>line. Log ErrorLevel line
                     [(''cmd'', FStr (Path (Restic cfg))), (''operation'', FStr operation)])
                (filter (\<lambda>line. line \<noteq> []) (Split (TrimSpace (stderr res)) (CHR 0x0A))) @
              [Log ErrorLevel ''failed to execute the command''
                 [(''cmd'', FStr (Path (Restic cfg))), (''operation'', FStr operation),
                  (''err'', FErr e)]]\<rparr>,
          Ok (Some e))"
    using assms by (simp add: f lineEvents_def nonEmptyLines_def)
  show "count_list (trace (fst (runResticCommand cfg w (operation # as) st)))
              (Log ErrorLevel line
                 [(''cmd'', FStr (Path (Restic cfg))), (''operation'', FStr operation)]) =
            count_list (trace st)
              (Log ErrorLevel line
                 [(''cmd'', FStr (Path (Restic cfg))), (''operation'', FStr operation)]) +
            count_list (filter (\<lambda>line. line \<noteq> []) (Split (TrimSpace (stderr res)) (CHR 0x0A)))
              line" for line
    using assms by (simp add: f count_lineEvents nonEmptyLines_def)
next
  assume n: "run_err res = None"
  with assms have "run_err (restic_Run w (Path (Restic cfg)) (operation # as) (environ st)) = None"
    by simp
  note s = runResticCommand_success [OF this]
  show "runResticCommand cfg w (operation # as) st =
         (st\<lparr>trace := trace st @
              RunRestic (Path (Restic cfg)) (operation # as) (environ st) #
              map (\<lambda>line. Log InfoLevel line
                     [(''cmd'', FStr (Path (Restic cfg))), (''operation'', FStr operation)])
                (filter (\<lambda>line. line \<noteq> []) (Split (TrimSpace (stdout res)) (CHR 0x0A)))\<rparr>,
          Ok None)"
    using assms by (simp add: s lineEvents_def nonEmptyLines_def)
  show "count_list (trace (fst (runResticCommand cfg w (operation # as) st)))
              (Log InfoLevel line
                 [(''cmd'', FStr (Path (Restic cfg))), (''operation'', FStr operation)]) =
            count_list (trace st)
              (Log InfoLevel line
                 [(''cmd'', FStr (Path (Restic cfg))), (''operation'', FStr operation)]) +
            count_list (filter (\<lambda>line. line \<noteq> []) (Split (TrimSpace (stdout res)) (CHR 0x0A)))
              line" for line
    using assms by (simp add: s count_lineEvents nonEmptyLines_def)
next
  show "specTrimmed (stderr res) (TrimSpace (stderr res))" by (rule specTrimmed_TrimSpace)
  show "specLines (TrimSpace (stderr res)) (Split (TrimSpace (stderr res)) (CHR 0x0A))"
    by (rule specLines_Split)
  show "specTrimmed (stdout res) (TrimSpace (stdout res))" by (rule specTrimmed_TrimSpace)
  show "specLines (TrimSpace (stdout res)) (Split (TrimSpace (stdout res)) (CHR 0x0A))"
    by (rule specLines_Split)
qed

theorem C2_witness:
  "runResticCommand exampleConfig noisyFailWorld [''backup''] \<lparr>environ = [], trace = []\<rparr> =
     (\<lparr>environ = [],
       trace = [RunRestic ''/usr/local/bin/restic'' [''backup''] [],
                Log ErrorLevel ''repository locked''
                  [(''cmd'', FStr ''/usr/local/bin/restic''), (''operation'', FStr ''backup'')],
                Log ErrorLevel '' ''
                  [(''cmd'', FStr ''/usr/local/bin/restic''), (''operation'', FStr ''backup'')],
                Log ErrorLevel ''unable to create lock''
                  [(''cmd'', FStr ''/usr/local/bin/restic''), (''operation'', FStr ''backup'')],
                Log ErrorLevel ''failed to execute the command''
                  [(''cmd'', FStr ''/usr/local/bin/restic''), (''operation'', FStr ''backup''),
                   (''err'', FErr ''exit status 1'')]]\<rparr>,
      Ok (Some ''exit status 1''))
   \<and> runResticCommand exampleConfig noisyOkWorld [''backup''] \<lparr>environ = [], trace = []\<rparr> =
     (\<lparr>environ = [],
       trace = [RunRestic ''/usr/local/bin/restic'' [''backup''] [],
                Log InfoLevel ''snapshot 1a2b saved''
                  [(''cmd'', FStr ''/usr/local/bin/restic''), (''operation'', FStr ''backup'')],
                Log InfoLevel ''processed 3 files''
                  [(''cmd'', FStr ''/usr/local/bin/restic''), (''operation'', FStr ''backup'')]]\<rparr>,
      Ok None)
   \<and> specLines (TrimSpace (stdout (restic_Run noisyOkWorld ''/usr/local/bin/restic''
          [''backup''] [])))
        [''snapshot 1a2b saved'', [], ''processed 3 files'']"
proof -
  have p: "Path (Restic exampleConfig) = ''/usr/local/bin/restic''"
    by (simp add: exampleConfig_def)
  have a: "restic_Run noisyFailWorld (Path (Restic exampleConfig)) [''backup'']
      (environ \<lparr>environ = [], trace = []\<rparr>) =
      restic_Run noisyFailWorld ''/usr/local/bin/restic'' [''backup''] []"
    by (simp add: p)
  have b: "restic_Run noisyOkWorld (Path (Restic exampleConfig)) [''backup'']
      (environ \<lparr>environ = [], trace = []\<rparr>) =
      restic_Run noisyOkWorld ''/usr/local/bin/restic'' [''backup''] []"
    by (simp add: p)
  note f = C2_line_logging [OF a, of "''exit status 1''"]
  note s = C2_line_logging [OF b, of "''exit status 1''"]
  from f have 1: "runResticCommand exampleConfig noisyFailWorld [''backup'']
      \<lparr>environ = [], trace = []\<rparr> =
     (\<lparr>environ = [],
       trace = [RunRestic ''/usr/local/bin/restic'' [''backup''] [],
                Log ErrorLevel ''repository locked''
                  [(''cmd'', FStr ''/usr/local/bin/restic''), (''operation'', FStr ''backup'')],
                Log ErrorLevel '' ''
                  [(''cmd'', FStr ''/usr/local/bin/restic''), (''operation'', FStr ''backup'')],
                Log ErrorLevel ''unable to create lock''
                  [(''cmd'', FStr ''/usr/local/bin/restic''), (''operation'', FStr ''backup'')],
                Log ErrorLevel ''failed to execute the command''
                  [(''cmd'', FStr ''/usr/local/bin/restic''), (''operation'', FStr ''backup''),
                   (''err'', FErr ''exit status 1'')]]\<rparr>,
      Ok (Some ''exit status 1''))"
    by (simp add: noisyFailWorld_run p)
  from s have 2: "runResticCommand exampleConfig noisyOkWorld [''backup'']
      \<lparr>environ = [], trace = []\<rparr> =
     (\<lparr>environ = [],
       trace = [RunRestic ''/usr/local/bin/restic'' [''backup''] [],
                Log InfoLevel ''snapshot 1a2b saved''
                  [(''cmd'', FStr ''/usr/local/bin/restic''), (''operation'', FStr ''backup'')],
                Log InfoLevel ''processed 3 files''
                  [(''cmd'', FStr ''/usr/local/bin/restic''), (''operation'', FStr ''backup'')]]\<rparr>,
      Ok None)"
    by (simp add: noisyOkWorld_run p)
  from s have "specLines (TrimSpace (stdout (restic_Run noisyOkWorld ''/usr/local/bin/restic''
          [''backup''] [])))
      (Split (TrimSpace (stdout (restic_Run noisyOkWorld ''/usr/local/bin/restic''
          [''backup''] []))) (CHR 0x0A))"
    by blast
  then have 3: "specLines (TrimSpace (stdout (restic_Run noisyOkWorld ''/usr/local/bin/restic''
          [''backup''] [])))
        [''snapshot 1a2b saved'', [], ''processed 3 files'']"
    by (simp only: noisyOkWorld_run(3))
  from 1 2 3 show ?thesis by blast
qed

text \<open>
  The claim as stated has every non-empty line of the standard error logged whatever the
  exit status, and every non-empty line logged once. In the first run below the engine
  exits with status \<open>0\<close> and a line on its standard error; the only entry is the line of
  the standard output. In the second the engine fails and the last line of its standard
  error is one tabulator: no entry has that message.
\<close>

theorem C2_counterexample:
  "run_err (restic_Run warningWorld (Path (Restic exampleConfig)) [''backup''] []) = None
   \<and> nonEmptyLines (stderr (restic_Run warningWorld (Path (Restic exampleConfig)) [''backup''] []))
       = [''warning: file changed'']
   \<and> trace (fst (runResticCommand exampleConfig warningWorld [''backup'']
                    \<lparr>environ = [], trace = []\<rparr>)) =
       [RunRestic ''/usr/local/bin/restic'' [''backup''] [],
        Log InfoLevel ''snapshot 1a2b saved''
          [(''cmd'', FStr ''/usr/local/bin/restic''), (''operation'', FStr ''backup'')]]
   \<and> Log ErrorLevel ''warning: file changed''
         [(''cmd'', FStr ''/usr/local/bin/restic''), (''operation'', FStr ''backup'')]
       \<notin> set (trace (fst (runResticCommand exampleConfig warningWorld [''backup'']
                             \<lparr>environ = [], trace = []\<rparr>)))
   \<and> run_err (restic_Run noisyFailWorld (Path (Restic exampleConfig)) [''backup''] [])
       = Some ''exit status 1''
   \<and> stderr (restic_Run noisyFailWorld (Path (Restic exampleConfig)) [''backup''] []) =
       [CHR 0x20, CHR 0x0A] @ ''repository locked'' @ [CHR 0x0A, CHR 0x20, CHR 0x0A]
       @ ''unable to create lock'' @ [CHR 0x0A] @ [CHR 0x09] @ [CHR 0x0A]
   \<and> \<not> list_ex (isLogOf [CHR 0x09])
        (trace (fst (runResticCommand exampleConfig noisyFailWorld [''backup'']
                       \<lparr>environ = [], trace = []\<rparr>)))"
proof -
  have p: "Path (Restic exampleConfig) = ''/usr/local/bin/restic''"
    by (simp add: exampleConfig_def)
  have n: "run_err (restic_Run warningWorld (Path (Restic exampleConfig)) [''backup'']
      (environ \<lparr>environ = [], trace = []\<rparr>)) = None"
    by (simp add: warningWorld_result)
  have 1: "run_err (restic_Run warningWorld (Path (Restic exampleConfig)) [''backup''] []) = None
   \<and> nonEmptyLines (stderr (restic_Run warningWorld (Path (Restic exampleConfig)) [''backup''] []))
       = [''warning: file changed'']
   \<and> trace (fst (runResticCommand exampleConfig warningWorld [''backup'']
                    \<lparr>environ = [], trace = []\<rparr>)) =
       [RunRestic ''/usr/local/bin/restic'' [''backup''] [],
        Log InfoLevel ''snapshot 1a2b saved''
          [(''cmd'', FStr ''/usr/local/bin/restic''), (''operation'', FStr ''backup'')]]
   \<and> Log ErrorLevel ''warning: file changed''
         [(''cmd'', FStr ''/usr/local/bin/restic''), (''operation'', FStr ''backup'')]
       \<notin> set (trace (fst (runResticCommand exampleConfig warningWorld [''backup'']
                             \<lparr>environ = [], trace = []\<rparr>)))"
    using runResticCommand_success [OF n]
    by (simp add: warningWorld_result example_lines lineEvents_def p)
  have f: "run_err (restic_Run noisyFailWorld (Path (Restic exampleConfig)) [''backup'']
      (environ \<lparr>environ = [], trace = []\<rparr>)) = Some ''exit status 1''"
    by (simp add: noisyFailWorld_run)
  have 2: "\<not> list_ex (isLogOf [CHR 0x09])
        (trace (fst (runResticCommand exampleConfig noisyFailWorld [''backup'']
                       \<lparr>environ = [], trace = []\<rparr>)))"
    using runResticCommand_failure [OF f]
    by (simp add: lineEvents_def nonEmptyLines_def noisyFailWorld_run)
  from 1 2 noisyFailWorld_run(1) noisyFailWorld_stderr show ?thesis by blast
qed

text \<open>
  C3, as the code has it. When \<^verbatim>\<open>exec.LookPath\<close> fails for the engine's path, the run logs
  one error, releases the lock and returns from \<^verbatim>\<open>main\<close>: no secret is fetched, the engine
  is never started, no metric is pushed, and the exit status of the process is \<open>0\<close>, not a
  failure status.
\<close>

theorem C3_missing_engine:
  assumes "lockAcquired w" and "exec_LookPath w (Path (Restic cfg)) = Some e"
  shows "fst (main cfg w) =
       \<lparr>environ = os_Environ w,
        trace = [TryLock (lockPath cfg w), LookPath (Path (Restic cfg)),
                 Log ErrorLevel ''cannot find the restic command''
                   [(''cmd'', FStr (Path (Restic cfg)))],
                 Unlock (lockPath cfg w)]\<rparr>
     \<and> snd (main cfg w) = Returned
     \<and> exit_code (snd (main cfg w)) = 0
     \<and> \<not> list_ex isRunRestic (trace (fst (main cfg w)))
     \<and> \<not> list_ex isRunSecurity (trace (fst (main cfg w)))
     \<and> \<not> list_ex isMetrics (trace (fst (main cfg w)))"
  using main_noEngine [OF assms] by simp

theorem C3_witness:
  "lockAcquired noEngineWorld
   \<and> exec_LookPath noEngineWorld (Path (Restic exampleConfig)) =
       Some ''executable file not found in $PATH''
   \<and> trace (fst (main exampleConfig noEngineWorld)) =
       [TryLock ''/Users/me/.restic_backup/.restic_backup_lock'',
        LookPath ''/usr/local/bin/restic'',
        Log ErrorLevel ''cannot find the restic command''
          [(''cmd'', FStr ''/usr/local/bin/restic'')],
        Unlock ''/Users/me/.restic_backup/.restic_backup_lock'']
   \<and> snd (main exampleConfig noEngineWorld) = Returned"
proof -
  have l: "lockAcquired noEngineWorld"
    by (simp add: lockAcquired_def noEngineWorld_def exampleWorld_def)
  have f: "exec_LookPath noEngineWorld (Path (Restic exampleConfig)) =
      Some ''executable file not found in $PATH''"
    by (simp add: noEngineWorld_def exampleWorld_def)
  have p: "lockPath exampleConfig noEngineWorld = ''/Users/me/.restic_backup/.restic_backup_lock''"
    "Path (Restic exampleConfig) = ''/usr/local/bin/restic''"
    by (simp_all add: lockPath_def exampleConfig_def noEngineWorld_def exampleWorld_def)
  show ?thesis
    using C3_missing_engine [OF l f] l f p by simp
qed

text \<open>
  The claim as stated asks for a non-zero exit status. In the run below the engine is not
  found and the exit status is \<open>0\<close>.
\<close>

theorem C3_counterexample:
  "lockAcquired noEngineWorld \<and> \<not> engineFound exampleConfig noEngineWorld
   \<and> exit_code (snd (main exampleConfig noEngineWorld)) = 0"
proof -
  have l: "lockAcquired noEngineWorld"
    by (simp add: lockAcquired_def noEngineWorld_def exampleWorld_def)
  have f: "exec_LookPath noEngineWorld (Path (Restic exampleConfig)) =
      Some ''executable file not found in $PATH''"
    by (simp add: noEngineWorld_def exampleWorld_def)
  from main_noEngine [OF l f] l f show ?thesis by (simp add: engineFound_def)
qed

text \<open>
  C4. When the lock is held by another instance (\<^verbatim>\<open>TryLock\<close> answers \<^verbatim>\<open>false\<close> with no
  error), the run makes that one non-blocking attempt, logs one warning and returns, so the
  process exits with status \<open>0\<close>; nothing else happens: the engine is not started, no
  secret is fetched, no metric is pushed and the environment is untouched. When
  \<^verbatim>\<open>TryLock\<close> answers with an error, the run logs it and exits with status \<open>1\<close>, again
  with no other interaction.
\<close>

theorem C4_lock_busy_or_error:
  "(lockBusy w \<longrightarrow>
      fst (main cfg w) =
        \<lparr>environ = os_Environ w,
         trace = [TryLock (lockPath cfg w),
                  Log WarnLevel ''Another instance of the program is already running. Exiting.'' []]\<rparr>
      \<and> exit_code (snd (main cfg w)) = 0
      \<and> \<not> list_ex isRunRestic (trace (fst (main cfg w)))
      \<and> \<not> list_ex isRunSecurity (trace (fst (main cfg w)))
      \<and> \<not> list_ex isMetrics (trace (fst (main cfg w))))
   \<and> (snd (flock_TryLock w) = Some e \<longrightarrow>
      fst (main cfg w) =
        \<lparr>environ = os_Environ w,
         trace = [TryLock (lockPath cfg w),
                  Log ErrorLevel ''cannot lock the lock file'' [(''err'', FErr e)]]\<rparr>
      \<and> exit_code (snd (main cfg w)) = 1
      \<and> \<not> list_ex isRunRestic (trace (fst (main cfg w)))
      \<and> \<not> list_ex isRunSecurity (trace (fst (main cfg w)))
      \<and> \<not> list_ex isMetrics (trace (fst (main cfg w))))"
proof (intro conjI impI)
  assume b: "lockBusy w"
  note m = main_lockBusy [OF b, of cfg]
  show "fst (main cfg w) =
        \<lparr>environ = os_Environ w,
         trace = [TryLock (lockPath cfg w),
                  Log WarnLevel ''Another instance of the program is already running. Exiting.'' []]\<rparr>"
    by (simp add: m)
  show "exit_code (snd (main cfg w)) = 0" by (simp add: m)
  show "\<not> list_ex isRunRestic (trace (fst (main cfg w)))" by (simp add: m)
  show "\<not> list_ex isRunSecurity (trace (fst (main cfg w)))" by (simp add: m)
  show "\<not> list_ex isMetrics (trace (fst (main cfg w)))" by (simp add: m)
next
  assume e: "snd (flock_TryLock w) = Some e"
  note m = main_lockError [OF e, of cfg]
  show "fst (main cfg w) =
        \<lparr>environ = os_Environ w,
         trace = [TryLock (lockPath cfg w),
                  Log ErrorLevel ''cannot lock the lock file'' [(''err'', FErr e)]]\<rparr>"
    by (simp add: m)
  show "exit_code (snd (main cfg w)) = 1" by (simp add: m)
  show "\<not> list_ex isRunRestic (trace (fst (main cfg w)))" by (simp add: m)
  show "\<not> list_ex isRunSecurity (trace (fst (main cfg w)))" by (simp add: m)
  show "\<not> list_ex isMetrics (trace (fst (main cfg w)))" by (simp add: m)
qed

theorem C4_witness:
  "lockBusy busyWorld
   \<and> trace (fst (main exampleConfig busyWorld)) =
       [TryLock ''/Users/me/.restic_backup/.restic_backup_lock'',
        Log WarnLevel ''Another instance of the program is already running. Exiting.'' []]
   \<and> exit_code (snd (main exampleConfig busyWorld)) = 0
   \<and> snd (flock_TryLock lockErrorWorld) = Some ''permission denied''
   \<and> trace (fst (main exampleConfig lockErrorWorld)) =
       [TryLock ''/Users/me/.restic_backup/.restic_backup_lock'',
        Log ErrorLevel ''cannot lock the lock file'' [(''err'', FErr ''permission denied'')]]
   \<and> exit_code (snd (main exampleConfig lockErrorWorld)) = 1"
proof -
  have b: "lockBusy busyWorld"
    by (simp add: lockBusy_def busyWorld_def exampleWorld_def)
  have e: "snd (flock_TryLock lockErrorWorld) = Some ''permission denied''"
    by (simp add: lockErrorWorld_def exampleWorld_def)
  have p: "lockPath exampleConfig busyWorld = ''/Users/me/.restic_backup/.restic_backup_lock''"
    "lockPath exampleConfig lockErrorWorld = ''/Users/me/.restic_backup/.restic_backup_lock''"
    by (simp_all add: lockPath_def exampleConfig_def busyWorld_def lockErrorWorld_def
        exampleWorld_def)
  show ?thesis
    using C4_lock_busy_or_error [of busyWorld exampleConfig "''permission denied''"]
      C4_lock_busy_or_error [of lockErrorWorld exampleConfig "''permission denied''"] b e p
    by simp
qed

text \<open>
  C5. In every run that reaches the power check (the lock is acquired and the engine is
  found) with \<^verbatim>\<open>require_ac_power\<close> set and \<^verbatim>\<open>isOnPower\<close> reporting \<^verbatim>\<open>false\<close> without
  error, the run logs one warning, releases the lock and returns: the engine is never
  started, no metric is pushed and the exit status is \<open>0\<close>.
\<close>

theorem C5_power_skip:
  assumes "lockAcquired w" and "engineFound cfg w"
    and "RequireAcPower cfg" and "powerReport w = (False, None)"
  shows "trace (fst (main cfg w)) =
       [TryLock (lockPath cfg w), LookPath (Path (Restic cfg)), RunPmset,
        Log WarnLevel ''The system is not running on AC power. Skipping backup.'' [],
        Unlock (lockPath cfg w)]
     \<and> snd (main cfg w) = Returned
     \<and> exit_code (snd (main cfg w)) = 0
     \<and> \<not> list_ex isRunRestic (trace (fst (main cfg w)))
     \<and> \<not> list_ex isMetrics (trace (fst (main cfg w)))"
proof -
  from assms(4) have "snd (powerReport w) = None" and "\<not> fst (powerReport w)" by simp_all
  from main_powerSkip [OF assms(1,2) this(1) assms(3) this(2)] show ?thesis by simp
qed

theorem C5_witness:
  "lockAcquired batteryWorld \<and> engineFound exampleConfig batteryWorld
   \<and> RequireAcPower exampleConfig \<and> powerReport batteryWorld = (False, None)
   \<and> trace (fst (main exampleConfig batteryWorld)) =
       [TryLock ''/Users/me/.restic_backup/.restic_backup_lock'',
        LookPath ''/usr/local/bin/restic'', RunPmset,
        Log WarnLevel ''The system is not running on AC power. Skipping backup.'' [],
        Unlock ''/Users/me/.restic_backup/.restic_backup_lock'']
   \<and> exit_code (snd (main exampleConfig batteryWorld)) = 0"
proof -
  have l: "lockAcquired batteryWorld"
    by (simp add: lockAcquired_def batteryWorld_def exampleWorld_def)
  have f: "engineFound exampleConfig batteryWorld"
    by (simp add: engineFound_def batteryWorld_def exampleWorld_def)
  have r: "RequireAcPower exampleConfig" by (simp add: exampleConfig_def)
  have p: "lockPath exampleConfig batteryWorld = ''/Users/me/.restic_backup/.restic_backup_lock''"
    "Path (Restic exampleConfig) = ''/usr/local/bin/restic''"
    by (simp_all add: lockPath_def exampleConfig_def batteryWorld_def exampleWorld_def)
  show ?thesis
    using C5_power_skip [OF l f r batteryWorld_power] l f r batteryWorld_power p by simp
qed

text \<open>
  C6, as the code has it. In every run that reaches the backup command and in which that
  command fails, the engine's standard error is first trimmed of the white space at both
  ends of the whole buffer; each non-empty line of what is left is logged at error level,
  once for each time it occurs; the process exits with status \<open>1\<close>; the \<^verbatim>\<open>forget\<close> command
  is never run and no metric is pushed.
\<close>

theorem C6_backup_failure:
  assumes "backupReached cfg w" and "run_err (backupResult cfg w) = Some e"
  shows "exit_code (snd (main cfg w)) = 1
     \<and> trace (fst (main cfg w)) =
         setupTrace cfg w @
         RunRestic (Path (Restic cfg)) (backupArgs cfg w) (envAfterSetup cfg w) #
         map (\<lambda>line. Log ErrorLevel line
                [(''cmd'', FStr (Path (Restic cfg))), (''operation'', FStr ''backup'')])
           (filter (\<lambda>line. line \<noteq> [])
              (Split (TrimSpace (stderr (backupResult cfg w))) (CHR 0x0A))) @
         [Log ErrorLevel ''failed to execute the command''
            [(''cmd'', FStr (Path (Restic cfg))), (''operation'', FStr ''backup''), (''err'', FErr e)],
          Log ErrorLevel ''Backup failed''
            [(''cmd'', FStr (Path (Restic cfg))), (''command'', FStr ''backup'')]]
     \<and> (\<forall>line.
           count_list (trace (fst (main cfg w)))
             (Log ErrorLevel line
                [(''cmd'', FStr (Path (Restic cfg))), (''operation'', FStr ''backup'')]) =
           count_list (filter (\<lambda>line. line \<noteq> [])
                         (Split (TrimSpace (stderr (backupResult cfg w))) (CHR 0x0A))) line)
     \<and> specTrimmed (stderr (backupResult cfg w)) (TrimSpace (stderr (backupResult cfg w)))
     \<and> specLines (TrimSpace (stderr (backupResult cfg w)))
          (Split (TrimSpace (stderr (backupResult cfg w))) (CHR 0x0A))
     \<and> \<not> list_ex (isOperation ''forget'') (trace (fst (main cfg w)))
     \<and> \<not> list_ex isMetrics (trace (fst (main cfg w)))"
proof -
  note m = main_backupFail [OF assms]
  have l: "lineEvents ErrorLevel (Path (Restic cfg)) ''backup'' (stderr (backupResult cfg w)) =
         map (\<lambda>line. Log ErrorLevel line
                [(''cmd'', FStr (Path (Restic cfg))), (''operation'', FStr ''backup'')])
           (filter (\<lambda>line. line \<noteq> [])
              (Split (TrimSpace (stderr (backupResult cfg w))) (CHR 0x0A)))"
    by (simp add: lineEvents_def nonEmptyLines_def)
  have n: "nonEmptyLines (stderr (backupResult cfg w)) =
      filter (\<lambda>line. line \<noteq> []) (Split (TrimSpace (stderr (backupResult cfg w))) (CHR 0x0A))"
    by (simp add: nonEmptyLines_def)
  have t: "trace (fst (main cfg w)) =
         setupTrace cfg w @
         RunRestic (Path (Restic cfg)) (backupArgs cfg w) (envAfterSetup cfg w) #
         lineEvents ErrorLevel (Path (Restic cfg)) ''backup'' (stderr (backupResult cfg w)) @
         [Log ErrorLevel ''failed to execute the command''
            [(''cmd'', FStr (Path (Restic cfg))), (''operation'', FStr ''backup''), (''err'', FErr e)],
          Log ErrorLevel ''Backup failed''
            [(''cmd'', FStr (Path (Restic cfg))), (''command'', FStr ''backup'')]]"
    by (simp add: m)
  have 1: "exit_code (snd (main cfg w)) = 1" by (simp add: m)
  have 2: "trace (fst (main cfg w)) =
         setupTrace cfg w @
         RunRestic (Path (Restic cfg)) (backupArgs cfg w) (envAfterSetup cfg w) #
         map (\<lambda>line. Log ErrorLevel line
                [(''cmd'', FStr (Path (Restic cfg))), (''operation'', FStr ''backup'')])
           (filter (\<lambda>line. line \<noteq> [])
              (Split (TrimSpace (stderr (backupResult cfg w))) (CHR 0x0A))) @
         [Log ErrorLevel ''failed to execute the command''
            [(''cmd'', FStr (Path (Restic cfg))), (''operation'', FStr ''backup''), (''err'', FErr e)],
          Log ErrorLevel ''Backup failed''
            [(''cmd'', FStr (Path (Restic cfg))), (''command'', FStr ''backup'')]]"
    using t l by simp
  have "count_list (trace (fst (main cfg w)))
             (Log ErrorLevel line
                [(''cmd'', FStr (Path (Restic cfg))), (''operation'', FStr ''backup'')]) =
           count_list (nonEmptyLines (stderr (backupResult cfg w))) line" for line
    by (simp add: t count_setupTrace_Log count_lineEvents)
  then have 3: "count_list (trace (fst (main cfg w)))
             (Log ErrorLevel line
                [(''cmd'', FStr (Path (Restic cfg))), (''operation'', FStr ''backup'')]) =
           count_list (filter (\<lambda>line. line \<noteq> [])
                         (Split (TrimSpace (stderr (backupResult cfg w))) (CHR 0x0A))) line" for line
    using n by simp
  have 4: "\<not> list_ex (isOperation ''forget'') (trace (fst (main cfg w)))"
    by (simp add: t backupArgs_def)
  have 5: "\<not> list_ex isMetrics (trace (fst (main cfg w)))"
    by (simp add: t)
  note 6 = specTrimmed_TrimSpace [of "stderr (backupResult cfg w)"]
  note 7 = specLines_Split [of "TrimSpace (stderr (backupResult cfg w))"]
  from 1 2 3 4 5 6 7 show ?thesis by blast
qed

theorem C6_witness:
  "backupReached exampleConfig noisyFailWorld
   \<and> run_err (backupResult exampleConfig noisyFailWorld) = Some ''exit status 1''
   \<and> exit_code (snd (main exampleConfig noisyFailWorld)) = 1
   \<and> filter isLog (trace (fst (main exampleConfig noisyFailWorld))) =
       [Log ErrorLevel ''repository locked''
          [(''cmd'', FStr ''/usr/local/bin/restic''), (''operation'', FStr ''backup'')],
        Log ErrorLevel '' ''
          [(''cmd'', FStr ''/usr/local/bin/restic''), (''operation'', FStr ''backup'')],
        Log ErrorLevel ''unable to create lock''
          [(''cmd'', FStr ''/usr/local/bin/restic''), (''operation'', FStr ''backup'')],
        Log ErrorLevel ''failed to execute the command''
          [(''cmd'', FStr ''/usr/local/bin/restic''), (''operation'', FStr ''backup''),
           (''err'', FErr ''exit status 1'')],
        Log ErrorLevel ''Backup failed''
          [(''cmd'', FStr ''/usr/local/bin/restic''), (''command'', FStr ''backup'')]]
   \<and> \<not> list_ex isMetrics (trace (fst (main exampleConfig noisyFailWorld)))"
proof -
  have r: "run_err (backupResult exampleConfig noisyFailWorld) = Some ''exit status 1''"
    by (simp add: backupResult_def noisyFailWorld_run)
  note c6 = C6_backup_failure [OF noisyFailWorld_reached r]
  have p: "Path (Restic exampleConfig) = ''/usr/local/bin/restic''"
    by (simp add: exampleConfig_def)
  have l: "filter (\<lambda>line. line \<noteq> [])
      (Split (TrimSpace (stderr (backupResult exampleConfig noisyFailWorld))) (CHR 0x0A)) =
      [''repository locked'', '' '', ''unable to create lock'']"
    by (simp add: backupResult_def noisyFailWorld_run)
  from c6 have "trace (fst (main exampleConfig noisyFailWorld)) =
         setupTrace exampleConfig noisyFailWorld @
         RunRestic (Path (Restic exampleConfig)) (backupArgs exampleConfig noisyFailWorld)
           (envAfterSetup exampleConfig noisyFailWorld) #
         map (\<lambda>line. Log ErrorLevel line
                [(''cmd'', FStr (Path (Restic exampleConfig))), (''operation'', FStr ''backup'')])
           (filter (\<lambda>line. line \<noteq> [])
              (Split (TrimSpace (stderr (backupResult exampleConfig noisyFailWorld))) (CHR 0x0A))) @
         [Log ErrorLevel ''failed to execute the command''
            [(''cmd'', FStr (Path (Restic exampleConfig))), (''operation'', FStr ''backup''),
             (''err'', FErr ''exit status 1'')],
          Log ErrorLevel ''Backup failed''
            [(''cmd'', FStr (Path (Restic exampleConfig))), (''command'', FStr ''backup'')]]"
    by blast
  then have 1: "filter isLog (trace (fst (main exampleConfig noisyFailWorld))) =
       [Log ErrorLevel ''repository locked''
          [(''cmd'', FStr ''/usr/local/bin/restic''), (''operation'', FStr ''backup'')],
        Log ErrorLevel '' ''
          [(''cmd'', FStr ''/usr/local/bin/restic''), (''operation'', FStr ''backup'')],
        Log ErrorLevel ''unable to create lock''
          [(''cmd'', FStr ''/usr/local/bin/restic''), (''operation'', FStr ''backup'')],
        Log ErrorLevel ''failed to execute the command''
          [(''cmd'', FStr ''/usr/local/bin/restic''), (''operation'', FStr ''backup''),
           (''err'', FErr ''exit status 1'')],
        Log ErrorLevel ''Backup failed''
          [(''cmd'', FStr ''/usr/local/bin/restic''), (''command'', FStr ''backup'')]]"
    by (simp add: l p)
  from c6 have 2: "exit_code (snd (main exampleConfig noisyFailWorld)) = 1"
    and 3: "\<not> list_ex isMetrics (trace (fst (main exampleConfig noisyFailWorld)))"
    by blast+
  from noisyFailWorld_reached r 1 2 3 show ?thesis by blast
qed

text \<open>
  The claim as stated has each non-empty line of the standard error logged. In the run
  below the backup command fails and the last line of its standard error is one
  tabulator: no entry has that message.
\<close>

theorem C6_counterexample:
  "backupReached exampleConfig noisyFailWorld
   \<and> run_err (backupResult exampleConfig noisyFailWorld) = Some ''exit status 1''
   \<and> stderr (backupResult exampleConfig noisyFailWorld) =
       [CHR 0x20, CHR 0x0A] @ ''repository locked'' @ [CHR 0x0A, CHR 0x20, CHR 0x0A]
       @ ''unable to create lock'' @ [CHR 0x0A] @ [CHR 0x09] @ [CHR 0x0A]
   \<and> \<not> list_ex (isLogOf [CHR 0x09]) (trace (fst (main exampleConfig noisyFailWorld)))"
proof -
  have r: "run_err (backupResult exampleConfig noisyFailWorld) = Some ''exit status 1''"
    by (simp add: backupResult_def noisyFailWorld_run)
  have s: "stderr (backupResult exampleConfig noisyFailWorld) =
       [CHR 0x20, CHR 0x0A] @ ''repository locked'' @ [CHR 0x0A, CHR 0x20, CHR 0x0A]
       @ ''unable to create lock'' @ [CHR 0x0A] @ [CHR 0x09] @ [CHR 0x0A]"
    unfolding backupResult_def by (rule noisyFailWorld_stderr)
  have l: "nonEmptyLines (stderr (backupResult exampleConfig noisyFailWorld)) =
      [''repository locked'', '' '', ''unable to create lock'']"
    by (simp add: nonEmptyLines_def backupResult_def noisyFailWorld_run)
  have "\<not> list_ex (isLogOf [CHR 0x09]) (trace (fst (main exampleConfig noisyFailWorld)))"
    by (simp add: main_backupFail [OF noisyFailWorld_reached r] lineEvents_def l)
  with noisyFailWorld_reached r s show ?thesis by blast
qed




text \<open>
  C8. When the backup command succeeds, \<^verbatim>\<open>cleanup_old_backups\<close> is set and the
  \<^verbatim>\<open>forget\<close> command fails, the failure is only logged: the next interaction is the start
  of the metrics push (which goes on to \<^verbatim>\<open>PutMetricData\<close> when the AWS configuration
  loads), the completion entry is logged, the lock is released, and \<^verbatim>\<open>main\<close> returns, so
  the exit status is \<open>0\<close>.
\<close>

theorem C8_forget_failure_not_fatal:
  assumes "backupReached cfg w" and "run_err (backupResult cfg w) = None"
    and "CleanupOldBackups cfg" and "run_err (forgetResult cfg w) = Some e"
  shows "snd (main cfg w) = Returned
     \<and> exit_code (snd (main cfg w)) = 0
     \<and> (\<exists>before between.
           trace (fst (main cfg w)) =
             before @
             [Log ErrorLevel ''Forget failed''
                [(''cmd'', FStr (Path (Restic cfg))), (''command'', FStr ''forget'')],
              LoadDefaultConfig] @
             between @
             [Log InfoLevel ''Backup completed successfully''
                [(''duration'', FDur (time_Since w))],
              Unlock (lockPath cfg w)]
           \<and> list_all (\<lambda>ev. isLog ev \<or> isMetrics ev) between)
     \<and> (config_LoadDefaultConfig w = None \<longrightarrow>
          PutMetricData ''ResticBackup'' (metricData cfg (time_Since w))
            \<in> set (trace (fst (main cfg w))))"
proof -
  note m = main_backupOk [OF assms(1,2)]
  obtain evs where evs: "reportEvents cfg w =
     LoadDefaultConfig # evs @
     [Log InfoLevel ''Backup completed successfully'' [(''duration'', FDur (time_Since w))]]"
     and logs: "list_all (\<lambda>ev. isLog ev \<or> isMetrics ev) evs"
    using reportEvents_shape [of cfg w] by blast
  have a: "afterBackupEvents cfg w =
         RunRestic (Path (Restic cfg)) forgetArgs (envAfterSetup cfg w) #
         lineEvents ErrorLevel (Path (Restic cfg)) ''forget'' (stderr (forgetResult cfg w)) @
         [Log ErrorLevel ''failed to execute the command''
            [(''cmd'', FStr (Path (Restic cfg))), (''operation'', FStr ''forget''), (''err'', FErr e)],
          Log ErrorLevel ''Forget failed''
            [(''cmd'', FStr (Path (Restic cfg))), (''command'', FStr ''forget'')]] @
         reportEvents cfg w"
    using assms(3,4) by (cases cfg w rule: afterBackupEvents_cases) simp_all
  let ?before = "setupTrace cfg w @
     RunRestic (Path (Restic cfg)) (backupArgs cfg w) (envAfterSetup cfg w) #
     lineEvents InfoLevel (Path (Restic cfg)) ''backup'' (stdout (backupResult cfg w)) @
     RunRestic (Path (Restic cfg)) forgetArgs (envAfterSetup cfg w) #
     lineEvents ErrorLevel (Path (Restic cfg)) ''forget'' (stderr (forgetResult cfg w)) @
     [Log ErrorLevel ''failed to execute the command''
        [(''cmd'', FStr (Path (Restic cfg))), (''operation'', FStr ''forget''), (''err'', FErr e)]]"
  have t: "trace (fst (main cfg w)) =
       ?before @
       [Log ErrorLevel ''Forget failed''
          [(''cmd'', FStr (Path (Restic cfg))), (''command'', FStr ''forget'')],
        LoadDefaultConfig] @
       evs @
       [Log InfoLevel ''Backup completed successfully'' [(''duration'', FDur (time_Since w))],
        Unlock (lockPath cfg w)]"
    by (simp add: m a evs)
  have 1: "snd (main cfg w) = Returned" by (simp add: m)
  have 2: "exit_code (snd (main cfg w)) = 0" by (simp add: m)
  have 3: "\<exists>before between.
           trace (fst (main cfg w)) =
             before @
             [Log ErrorLevel ''Forget failed''
                [(''cmd'', FStr (Path (Restic cfg))), (''command'', FStr ''forget'')],
              LoadDefaultConfig] @
             between @
             [Log InfoLevel ''Backup completed successfully''
                [(''duration'', FDur (time_Since w))],
              Unlock (lockPath cfg w)]
           \<and> list_all (\<lambda>ev. isLog ev \<or> isMetrics ev) between"
    using t logs by blast
  have 4: "config_LoadDefaultConfig w = None \<longrightarrow>
          PutMetricData ''ResticBackup'' (metricData cfg (time_Since w))
            \<in> set (trace (fst (main cfg w)))"
  proof
    assume "config_LoadDefaultConfig w = None"
    from reportEvents_push [OF this, of cfg] show
      "PutMetricData ''ResticBackup'' (metricData cfg (time_Since w))
         \<in> set (trace (fst (main cfg w)))"
      by (simp add: m a)
  qed
  from 1 2 3 4 show ?thesis by blast
qed

theorem C8_witness:
  "backupReached exampleConfig forgetFailWorld
   \<and> run_err (backupResult exampleConfig forgetFailWorld) = None
   \<and> CleanupOldBackups exampleConfig
   \<and> run_err (forgetResult exampleConfig forgetFailWorld) = Some ''exit status 1''
   \<and> config_LoadDefaultConfig forgetFailWorld = None
   \<and> snd (main exampleConfig forgetFailWorld) = Returned
   \<and> exit_code (snd (main exampleConfig forgetFailWorld)) = 0
   \<and> PutMetricData ''ResticBackup'' (metricData exampleConfig 1500000000)
        \<in> set (trace (fst (main exampleConfig forgetFailWorld)))"
proof -
  have c: "CleanupOldBackups exampleConfig" by (simp add: exampleConfig_def)
  have l: "config_LoadDefaultConfig forgetFailWorld = None"
    "time_Since forgetFailWorld = 1500000000"
    by (simp_all add: forgetFailWorld_def exampleWorld_def)
  show ?thesis
    using C8_forget_failure_not_fatal [OF forgetFailWorld_reached forgetFailWorld_result(1) c
        forgetFailWorld_result(2)]
      forgetFailWorld_reached forgetFailWorld_result c l
    by simp
qed

text \<open>
  C9. \<^verbatim>\<open>runResticCommand\<close> never panics when its argument list is not empty. With an empty
  list it panics at \<^verbatim>\<open>args[0]\<close> exactly when there is an entry to tag: the command fails, or
  it succeeds with a non-empty line on its standard output. \<^verbatim>\<open>main\<close> never ends in a panic,
  and every engine invocation of a run has \<^verbatim>\<open>backup\<close> or \<^verbatim>\<open>forget\<close> as its first argument.
\<close>

theorem C9_operation_index:
  "(args \<noteq> [] \<longrightarrow> snd (runResticCommand cfg w args st) \<noteq> Panic)
   \<and> (snd (runResticCommand cfg w [] st) = Panic) =
       (run_err (restic_Run w (Path (Restic cfg)) [] (environ st)) \<noteq> None
        \<or> nonEmptyLines (stdout (restic_Run w (Path (Restic cfg)) [] (environ st))) \<noteq> [])
   \<and> snd (main cfg w) \<noteq> Panicked
   \<and> (\<forall>ev \<in> set (trace (fst (main cfg w))).
         isRunRestic ev \<longrightarrow> isOperation ''backup'' ev \<or> isOperation ''forget'' ev)"
proof (intro conjI impI ballI)
  assume "args \<noteq> []"
  then obtain operation as where "args = operation # as" by (cases args) simp_all
  then show "snd (runResticCommand cfg w args st) \<noteq> Panic"
    by (simp add: runResticCommand_Cons_snd)
next
  show "(snd (runResticCommand cfg w [] st) = Panic) =
       (run_err (restic_Run w (Path (Restic cfg)) [] (environ st)) \<noteq> None
        \<or> nonEmptyLines (stdout (restic_Run w (Path (Restic cfg)) [] (environ st))) \<noteq> [])"
    by (simp add: runResticCommand_Nil)
next
  show "snd (main cfg w) \<noteq> Panicked" by (rule main_not_Panicked)
next
  fix ev
  assume "ev \<in> set (trace (fst (main cfg w)))" and "isRunRestic ev"
  from main_RunRestic [OF this]
  show "isOperation ''backup'' ev \<or> isOperation ''forget'' ev"
    by (auto simp add: backupArgs_def forgetArgs_def)
qed

theorem C9_witness:
  "[''backup''] \<noteq> []
   \<and> snd (runResticCommand exampleConfig backupFailWorld [''backup'']
            (initial backupFailWorld)) \<noteq> Panic
   \<and> snd (runResticCommand exampleConfig backupFailWorld [] (initial backupFailWorld)) = Panic
   \<and> RunRestic (Path (Restic exampleConfig)) (backupArgs exampleConfig exampleWorld)
        (envAfterSetup exampleConfig exampleWorld)
       \<in> set (trace (fst (main exampleConfig exampleWorld)))
   \<and> isRunRestic (RunRestic (Path (Restic exampleConfig)) (backupArgs exampleConfig exampleWorld)
        (envAfterSetup exampleConfig exampleWorld))
   \<and> isOperation ''backup''
       (RunRestic (Path (Restic exampleConfig)) (backupArgs exampleConfig exampleWorld)
          (envAfterSetup exampleConfig exampleWorld))
   \<and> \<not> isOperation ''forget''
       (RunRestic (Path (Restic exampleConfig)) (backupArgs exampleConfig exampleWorld)
          (envAfterSetup exampleConfig exampleWorld))"
proof -
  let ?ev = "RunRestic (Path (Restic exampleConfig)) (backupArgs exampleConfig exampleWorld)
        (envAfterSetup exampleConfig exampleWorld)"
  note a = C9_operation_index [of "[''backup'']" exampleConfig backupFailWorld
      "initial backupFailWorld"]
  note b = C9_operation_index [of "[''backup'']" exampleConfig exampleWorld "initial exampleWorld"]
  have 1: "[''backup''] \<noteq> []" by simp
  from a 1 have 2: "snd (runResticCommand exampleConfig backupFailWorld [''backup'']
            (initial backupFailWorld)) \<noteq> Panic"
    by blast
  from a have "(snd (runResticCommand exampleConfig backupFailWorld [] (initial backupFailWorld))
        = Panic) =
      (run_err (restic_Run backupFailWorld (Path (Restic exampleConfig)) []
          (environ (initial backupFailWorld))) \<noteq> None
       \<or> nonEmptyLines (stdout (restic_Run backupFailWorld (Path (Restic exampleConfig)) []
          (environ (initial backupFailWorld)))) \<noteq> [])"
    by blast
  then have 3: "snd (runResticCommand exampleConfig backupFailWorld [] (initial backupFailWorld))
      = Panic"
    by (simp add: backupFailWorld_run)
  have 4: "?ev \<in> set (trace (fst (main exampleConfig exampleWorld)))"
    by (simp add: main_backupOk [OF exampleWorld_reached exampleWorld_result(1)])
  have 5: "isRunRestic ?ev" by simp
  from b 4 5 have "isOperation ''backup'' ?ev \<or> isOperation ''forget'' ?ev" by blast
  moreover have 7: "\<not> isOperation ''forget'' ?ev" by (simp add: backupArgs_def)
  ultimately have 6: "isOperation ''backup'' ?ev" by blast
  from 1 2 3 4 5 6 7 show ?thesis by blast
qed




end
